theory Spec2Isabelle
  imports Complex_Main "HOL-Library.Word" "HOL-Library.Product_Lexorder" "HOL-Library.AList"
begin

section \<open>Data model (internal/models, schema)\<close>

text \<open>
  \<open>uuid.UUID\<close> is a 16-byte array; \<open>time.Time\<close> is read as Unix nanoseconds and
  \<open>time.Duration\<close> as a number of nanoseconds. \<open>int64\<close> identifiers are read as
  integers: BIGSERIAL values stay far from the 64-bit bounds.
\<close>

type_synonym uuid = "128 word"
type_synonym time = int
type_synonym duration = int

definition Second :: duration where
  "Second = 1000000000"

definition Minute :: duration where
  "Minute = 60 * Second"

record message =
  ID :: int
  RoomID :: uuid
  UserID :: uuid
  Content :: string
  MessageType :: string
  FileURL :: string
  ParentID :: "int option"
  EditedAt :: "time option"
  DeletedAt :: "time option"
  CreatedAt :: time

text \<open>The zero value of \<open>models.Message\<close> (\<open>var msg models.Message\<close>).\<close>

definition zero_message :: message where
  "zero_message = \<lparr>ID = 0, RoomID = 0, UserID = 0, Content = [], MessageType = [],
     FileURL = [], ParentID = None, EditedAt = None, DeletedAt = None, CreatedAt = 0\<rparr>"

record message_read =
  MessageID :: int
  ReaderID :: uuid
  ReadAt :: time

datatype db_error =
    ErrNoRows
  | SyntaxError
  | ParamCountMismatch
  | NegativeLimit
  | CheckViolation
  | ForeignKeyViolation
  | ConnError

text \<open>
  The durable store: the tables of the schema that the modelled operations touch.
  A row of \<open>messages\<close> is kept as a \<open>message\<close> (the columns the code scans);
  \<open>messages_id_seq\<close> is the BIGSERIAL sequence behind \<open>messages.id\<close>.
  \<open>pool_up\<close> says whether a statement sent on the pool reaches the server.
  Every statement sent on the pool itself (\<open>db.pool.QueryRow\<close>, \<open>db.pool.Exec\<close>,
  \<open>db.pool.Query\<close>) runs in its own implicit transaction and is durable on return.
\<close>

record database =
  users_tbl :: "uuid list"
  rooms_tbl :: "uuid list"
  room_members :: "(uuid \<times> uuid) list"
  messages :: "message list"
  message_reads :: "message_read list"
  messages_id_seq :: int
  pool_up :: bool

section \<open>Query texts and placeholders (internal/db/db.go)\<close>

text \<open>
  Go's \<open>string(rune(n))\<close> is the UTF-8 encoding of code point \<open>n\<close>, and the encoding
  of U+FFFD when \<open>n\<close> is not a valid code point.
\<close>

definition string_rune :: "int \<Rightarrow> string" where
  "string_rune r =
     (if 0 \<le> r \<and> r < 128 then [char_of r]
      else if 128 \<le> r \<and> r < 2048 then [char_of (192 + r div 64), char_of (128 + r mod 64)]
      else if r < 0 \<or> 1114111 < r \<or> (55296 \<le> r \<and> r \<le> 57343)
        then [char_of (239::int), char_of (191::int), char_of (189::int)]
      else if r < 65536
        then [char_of (224 + r div 4096), char_of (128 + (r div 64) mod 64),
              char_of (128 + r mod 64)]
      else [char_of (240 + r div 262144), char_of (128 + (r div 4096) mod 64),
            char_of (128 + (r div 64) mod 64), char_of (128 + r mod 64)])"

text \<open>\<open>fmt.Sprintf("%d", n)\<close> for a non-negative \<open>n\<close>.\<close>

function sprintf_d :: "nat \<Rightarrow> string" where
  "sprintf_d n =
     (if n < 10 then [char_of (48 + int n)]
      else sprintf_d (n div 10) @ [char_of (48 + int (n mod 10))])"
  by pat_completeness auto
termination
  by (relation "measure id") auto

declare sprintf_d.simps [simp del]

definition is_digit :: "char \<Rightarrow> bool" where
  "is_digit c = (c \<in> set ''0123456789'')"

fun digits_value :: "nat \<Rightarrow> string \<Rightarrow> nat" where
  "digits_value acc [] = acc"
| "digits_value acc (c # cs) = digits_value (10 * acc + (of_char c - 48)) cs"

text \<open>
  The server's reading of the parameter references of a statement: a \<open>$\<close> followed by
  one or more decimal digits is parameter number that many; a \<open>$\<close> followed by anything
  else is not a token of the statement (a syntax error). The modelled statements have no
  \<open>$\<close> inside a quoted literal.
\<close>

fun pg_params :: "string \<Rightarrow> nat option list" where
  "pg_params [] = []"
| "pg_params (c # cs) =
     (if c = CHR ''$''
      then (let ds = takeWhile is_digit cs
            in (if ds = [] then None else Some (digits_value 0 ds)) # pg_params cs)
      else pg_params cs)"

text \<open>
  What \<open>pool.Query\<close>/\<open>QueryRow\<close>/\<open>Exec\<close> answer before any row is produced:
  no connection, a statement the server cannot parse, or a number of arguments that is
  not the number of parameters of the statement.
\<close>

definition params_match :: "nat option list \<Rightarrow> nat \<Rightarrow> bool" where
  "params_match ps nargs =
     (list_all (\<lambda>p. case p of None \<Rightarrow> False | Some k \<Rightarrow> 1 \<le> k \<and> k \<le> nargs) ps
      \<and> list_all (\<lambda>k. Some k \<in> set ps) [1..<Suc nargs])"

definition pg_prepare :: "database \<Rightarrow> string \<Rightarrow> nat \<Rightarrow> db_error option" where
  "pg_prepare db query nargs =
     (let ps = pg_params query
      in if \<not> pool_up db then Some ConnError
         else if None \<in> set ps \<or> Some 0 \<in> set ps then Some SyntaxError
         else if \<not> params_match ps nargs then Some ParamCountMismatch
         else None)"

subsection \<open>GetMessageByID\<close>

definition GetMessageByID_sql :: string where
  "GetMessageByID_sql =
     ''SELECT id, room_id, user_id, content, message_type, file_url, parent_id, edited_at, deleted_at, created_at FROM messages WHERE id = $1 AND deleted_at IS NULL''"

text \<open>
  \<open>QueryRow(...).Scan(...)\<close>: the first row of the result, or \<open>ErrNoRows\<close>; the
  function returns \<open>&msg\<close> in both cases, the zero message when nothing was scanned.
\<close>

definition GetMessageByID :: "database \<Rightarrow> int \<Rightarrow> message \<times> db_error option" where
  "GetMessageByID db messageID =
     (case pg_prepare db GetMessageByID_sql 1 of
        Some e \<Rightarrow> (zero_message, Some e)
      | None \<Rightarrow>
          (case filter (\<lambda>m. ID m = messageID \<and> DeletedAt m = None) (messages db) of
             [] \<Rightarrow> (zero_message, Some ErrNoRows)
           | m # _ \<Rightarrow> (m, None)))"

subsection \<open>GetRoomMessages\<close>

text \<open>
  The query text and the number of arguments, built as the function builds them:
  \<open>args\<close> starts with the room id, \<open>before\<close> is appended when positive, and the
  LIMIT parameter is written as \<open>string(rune(len(args)+1))\<close>. Runs of white space of
  the raw string literal are written as one space.
\<close>

definition GetRoomMessages_base :: string where
  "GetRoomMessages_base =
     ''SELECT id, room_id, user_id, content, message_type, file_url, parent_id, edited_at, deleted_at, created_at FROM messages WHERE room_id = $1 AND deleted_at IS NULL''"

definition GetRoomMessages_sql :: "int \<Rightarrow> string \<times> nat" where
  "GetRoomMessages_sql before =
     (let query = GetRoomMessages_base;
          nargs = (1::nat);
          query = (if before > 0 then query @ '' AND id < $2'' else query);
          nargs = (if before > 0 then nargs + 1 else nargs);
          query = query @ '' ORDER BY created_at DESC LIMIT $'' @ string_rune (int nargs + 1);
          nargs = nargs + 1
      in (query, nargs))"

definition GetRoomMessages ::
  "database \<Rightarrow> uuid \<Rightarrow> int \<Rightarrow> int \<Rightarrow> message list \<times> db_error option" where
  "GetRoomMessages db roomID limit before =
     (let (query, nargs) = GetRoomMessages_sql before
      in case pg_prepare db query nargs of
           Some e \<Rightarrow> ([], Some e)
         | None \<Rightarrow>
             if limit < 0 then ([], Some NegativeLimit)
             else (take (nat limit)
                     (rev (sort_key CreatedAt
                        (filter (\<lambda>m. RoomID m = roomID \<and> DeletedAt m = None
                                      \<and> (before > 0 \<longrightarrow> ID m < before))
                           (messages db)))), None))"

subsection \<open>SearchMessages\<close>

text \<open>
  The optional filters are appended with \<open>fmt.Sprintf("$%d", paramIndex)\<close>.
  \<open>tsv @@ plainto_tsquery('english', $2)\<close> and \<open>ts_rank\<close> belong to the server's
  full-text search; they are parameters \<open>ts_match\<close> and \<open>ts_rank\<close> of the model.
\<close>

definition SearchMessages_base :: string where
  "SearchMessages_base =
     ''SELECT id, room_id, user_id, content, message_type, file_url, parent_id, edited_at, deleted_at, created_at FROM messages WHERE room_id = $1 AND deleted_at IS NULL AND tsv @@ plainto_tsquery('english', $2)''"

definition SearchMessages_sql ::
  "uuid option \<Rightarrow> time option \<Rightarrow> time option \<Rightarrow> string \<times> nat" where
  "SearchMessages_sql senderID beforeTime afterTime =
     (let baseQuery = SearchMessages_base;
          nargs = (2::nat);
          paramIndex = (3::nat);
          baseQuery = (if senderID \<noteq> None
                       then baseQuery @ '' AND user_id = $'' @ sprintf_d paramIndex else baseQuery);
          nargs = (if senderID \<noteq> None then nargs + 1 else nargs);
          paramIndex = (if senderID \<noteq> None then paramIndex + 1 else paramIndex);
          baseQuery = (if beforeTime \<noteq> None
                       then baseQuery @ '' AND created_at < $'' @ sprintf_d paramIndex else baseQuery);
          nargs = (if beforeTime \<noteq> None then nargs + 1 else nargs);
          paramIndex = (if beforeTime \<noteq> None then paramIndex + 1 else paramIndex);
          baseQuery = (if afterTime \<noteq> None
                       then baseQuery @ '' AND created_at > $'' @ sprintf_d paramIndex else baseQuery);
          nargs = (if afterTime \<noteq> None then nargs + 1 else nargs);
          paramIndex = (if afterTime \<noteq> None then paramIndex + 1 else paramIndex);
          baseQuery = baseQuery
            @ '' ORDER BY ts_rank(tsv, plainto_tsquery('english', $2)) DESC, created_at DESC LIMIT $''
            @ sprintf_d paramIndex;
          nargs = nargs + 1
      in (baseQuery, nargs))"

definition SearchMessages ::
  "(string \<Rightarrow> message \<Rightarrow> bool) \<Rightarrow> (string \<Rightarrow> message \<Rightarrow> 'r::linorder) \<Rightarrow> database \<Rightarrow> uuid
     \<Rightarrow> string \<Rightarrow> int \<Rightarrow> uuid option \<Rightarrow> time option \<Rightarrow> time option
     \<Rightarrow> message list \<times> db_error option" where
  "SearchMessages ts_match ts_rank db roomID query limit senderID beforeTime afterTime =
     (let (sql, nargs) = SearchMessages_sql senderID beforeTime afterTime
      in case pg_prepare db sql nargs of
           Some e \<Rightarrow> ([], Some e)
         | None \<Rightarrow>
             if limit < 0 then ([], Some NegativeLimit)
             else (take (nat limit)
                     (rev (sort_key (\<lambda>m. (ts_rank query m, CreatedAt m))
                        (filter (\<lambda>m. RoomID m = roomID \<and> DeletedAt m = None \<and> ts_match query m
                                      \<and> (case senderID of None \<Rightarrow> True | Some s \<Rightarrow> UserID m = s)
                                      \<and> (case beforeTime of None \<Rightarrow> True | Some t \<Rightarrow> CreatedAt m < t)
                                      \<and> (case afterTime of None \<Rightarrow> True | Some t \<Rightarrow> CreatedAt m > t))
                           (messages db)))), None))"

subsection \<open>IsRoomMember, CreateMessage, MarkMessageRead\<close>

definition IsRoomMember_sql :: string where
  "IsRoomMember_sql =
     ''SELECT EXISTS(SELECT 1 FROM room_members WHERE room_id = $1 AND user_id = $2)''"

text \<open>\<open>var exists bool\<close> stays false when \<open>Scan\<close> fails.\<close>

definition IsRoomMember :: "database \<Rightarrow> uuid \<Rightarrow> uuid \<Rightarrow> bool \<times> db_error option" where
  "IsRoomMember db roomID userID =
     (case pg_prepare db IsRoomMember_sql 2 of
        Some e \<Rightarrow> (False, Some e)
      | None \<Rightarrow> ((roomID, userID) \<in> set (room_members db), None))"

definition CreateMessage_sql :: string where
  "CreateMessage_sql =
     ''INSERT INTO messages (room_id, user_id, content, message_type, file_url, parent_id) VALUES ($1, $2, $3, $4, $5, $6) RETURNING id, created_at''"

text \<open>
  \<open>CreateMessage\<close> sends its INSERT on \<open>db.pool\<close>. The row gets the next value of the
  sequence (consumed also when the insert then fails) and \<open>created_at = NOW()\<close>; the
  schema's CHECK on \<open>message_type\<close> and its foreign keys can reject it. On success the
  row is in the table and \<open>msg.ID\<close>, \<open>msg.CreatedAt\<close> are overwritten through the
  pointer. Row-level security policies are not modelled.
\<close>

definition CreateMessage ::
  "time \<Rightarrow> database \<Rightarrow> message \<Rightarrow> database \<times> message \<times> db_error option" where
  "CreateMessage now db msg =
     (case pg_prepare db CreateMessage_sql 6 of
        Some e \<Rightarrow> (db, msg, Some e)
      | None \<Rightarrow>
          (let new_id = messages_id_seq db + 1;
               db1 = db\<lparr>messages_id_seq := new_id\<rparr>
           in if MessageType msg \<notin> set [''text'', ''image'', ''file'']
              then (db1, msg, Some CheckViolation)
              else if RoomID msg \<notin> set (rooms_tbl db) \<or> UserID msg \<notin> set (users_tbl db)
                      \<or> (case ParentID msg of None \<Rightarrow> False
                          | Some p \<Rightarrow> p \<notin> set (map ID (messages db)))
              then (db1, msg, Some ForeignKeyViolation)
              else (db1\<lparr>messages := messages db
                          @ [\<lparr>ID = new_id, RoomID = RoomID msg, UserID = UserID msg,
                              Content = Content msg, MessageType = MessageType msg,
                              FileURL = FileURL msg, ParentID = ParentID msg,
                              EditedAt = None, DeletedAt = None, CreatedAt = now\<rparr>]\<rparr>,
                    msg\<lparr>ID := new_id, CreatedAt := now\<rparr>, None)))"

definition MarkMessageRead_sql :: string where
  "MarkMessageRead_sql =
     ''INSERT INTO message_reads (message_id, user_id) VALUES ($1, $2) ON CONFLICT DO NOTHING''"

text \<open>
  \<open>message_reads\<close> has PRIMARY KEY (message_id, user_id): a row with the same pair is a
  conflict, and ON CONFLICT DO NOTHING then inserts nothing and reports no error.
  Otherwise the foreign keys to \<open>messages\<close> and \<open>users\<close> are checked and the row is
  inserted with \<open>read_at = NOW()\<close>.
\<close>

definition has_receipt :: "database \<Rightarrow> int \<Rightarrow> uuid \<Rightarrow> bool" where
  "has_receipt db messageID userID =
     list_ex (\<lambda>r. MessageID r = messageID \<and> ReaderID r = userID) (message_reads db)"

definition MarkMessageRead ::
  "time \<Rightarrow> database \<Rightarrow> int \<Rightarrow> uuid \<Rightarrow> database \<times> db_error option" where
  "MarkMessageRead now db messageID userID =
     (case pg_prepare db MarkMessageRead_sql 2 of
        Some e \<Rightarrow> (db, Some e)
      | None \<Rightarrow>
          if has_receipt db messageID userID then (db, None)
          else if messageID \<notin> set (map ID (messages db)) \<or> userID \<notin> set (users_tbl db)
          then (db, Some ForeignKeyViolation)
          else (db\<lparr>message_reads := message_reads db
                      @ [\<lparr>MessageID = messageID, ReaderID = userID, ReadAt = now\<rparr>]\<rparr>, None))"

text \<open>\<open>handleRead\<close> (client side of the read receipt) discards the error.\<close>

definition handleRead :: "time \<Rightarrow> database \<Rightarrow> int \<Rightarrow> uuid \<Rightarrow> database" where
  "handleRead now db messageID userID = fst (MarkMessageRead now db messageID userID)"



section \<open>WebSocket upgrade (internal/api/websocket.go)\<close>

text \<open>
  The request carries the query parameters \<open>token\<close> and \<open>room_id\<close>.
  \<open>jwtMgr.ValidateToken\<close> (the user id of the claims, or an error), \<open>uuid.Parse\<close> and
  the outcome of \<open>upgrader.Upgrade\<close> are parameters. The result is the HTTP error
  written by \<open>http.Error\<close>, a failed upgrade, or the connection established for
  (room, user), after which the handler creates and starts the client.
\<close>

record ws_request =
  q_token :: string
  q_room_id :: string

datatype ws_result =
    HttpError nat string
  | UpgradeFailed
  | Connected uuid uuid

definition StatusBadRequest :: nat where
  "StatusBadRequest = 400"

definition StatusUnauthorized :: nat where
  "StatusUnauthorized = 401"

definition StatusForbidden :: nat where
  "StatusForbidden = 403"

definition WebSocketHandler ::
  "(string \<Rightarrow> uuid option) \<Rightarrow> (string \<Rightarrow> uuid option) \<Rightarrow> bool \<Rightarrow> database \<Rightarrow> ws_request
     \<Rightarrow> ws_result" where
  "WebSocketHandler ValidateToken uuid_Parse upgrade_ok db req =
     (let token = q_token req
      in if token = [] then HttpError StatusUnauthorized ''Missing token''
         else case ValidateToken token of
           None \<Rightarrow> HttpError StatusUnauthorized ''Invalid token''
         | Some claims_UserID \<Rightarrow>
             (let roomIDStr = q_room_id req
              in if roomIDStr = [] then HttpError StatusBadRequest ''Missing room_id''
                 else case uuid_Parse roomIDStr of
                   None \<Rightarrow> HttpError StatusBadRequest ''Invalid room_id''
                 | Some roomID \<Rightarrow>
                     (let (isMember, err) = IsRoomMember db roomID claims_UserID
                      in if err \<noteq> None \<or> \<not> isMember
                         then HttpError StatusForbidden ''Not a member of this room''
                         else if \<not> upgrade_ok then UpgradeFailed
                         else Connected roomID claims_UserID)))"

text \<open>The handler got as far as \<open>upgrader.Upgrade\<close>.\<close>

fun upgrade_reached :: "ws_result \<Rightarrow> bool" where
  "upgrade_reached (HttpError _ _) = False"
| "upgrade_reached UpgradeFailed = True"
| "upgrade_reached (Connected _ _) = True"

section \<open>Channels\<close>

text \<open>
  A Go channel: its buffer, its capacity and whether it was closed. A send on a closed
  channel panics; a send on an open channel with room in the buffer succeeds; otherwise
  the sender would block.
\<close>

record 'a chan =
  buf :: "'a list"
  cap :: nat
  closed :: bool

definition make_chan :: "nat \<Rightarrow> 'a chan" where
  "make_chan n = \<lparr>buf = [], cap = n, closed = False\<rparr>"

datatype 'a send_result = Sent "'a chan" | WouldBlock | SendPanic

definition chan_send :: "'a chan \<Rightarrow> 'a \<Rightarrow> 'a send_result" where
  "chan_send c v =
     (if closed c then SendPanic
      else if length (buf c) < cap c then Sent (c\<lparr>buf := buf c @ [v]\<rparr>)
      else WouldBlock)"

section \<open>Write pipeline (persistence: MessageWriter)\<close>

definition maxRetries :: nat where
  "maxRetries = 5"

definition Millisecond :: duration where
  "Millisecond = 1000000"

record message_writer =
  messageQueue :: "message chan"
  done_ch :: "unit chan"
  batchSize :: nat
  flushInterval :: duration

definition NewMessageWriter :: message_writer where
  "NewMessageWriter =
     \<lparr>messageQueue = make_chan 1000, done_ch = make_chan 0, batchSize = 50,
      flushInterval = 100 * Millisecond\<rparr>"

subsection \<open>QueueMessage\<close>

text \<open>
  \<open>select { case mw.messageQueue <- msg: case <-mw.done: }\<close> has no default case and
  no timer. The send is ready when the queue has room; the receive on \<open>done\<close> is ready
  once \<open>Stop\<close> closed it (nothing is ever sent on it). When both are ready the runtime
  picks one; \<open>pick_send\<close> is that choice. When neither is ready the caller is parked.
\<close>

datatype queue_outcome = Enqueued | ReturnedOnDone | Parked

definition QueueMessage ::
  "bool \<Rightarrow> message_writer \<Rightarrow> message \<Rightarrow> queue_outcome \<times> message_writer" where
  "QueueMessage pick_send mw msg =
     (let can_send = length (buf (messageQueue mw)) < cap (messageQueue mw);
          is_done = closed (done_ch mw)
      in if can_send \<and> (\<not> is_done \<or> pick_send)
         then (Enqueued, mw\<lparr>messageQueue := (messageQueue mw)\<lparr>buf := buf (messageQueue mw) @ [msg]\<rparr>\<rparr>)
         else if is_done then (ReturnedOnDone, mw)
         else (Parked, mw))"

text \<open>
  What the rest of the program can do while a caller is parked in \<open>QueueMessage\<close>:
  time passes, the writer task receives one message from the queue, or \<open>Stop\<close> closes
  \<open>done\<close>. The parked caller proceeds at the first state in which a case is ready.
\<close>

datatype env_step = TimePasses duration | WriterReceives | StopCalled

fun env_apply :: "env_step \<Rightarrow> message_writer \<Rightarrow> message_writer" where
  "env_apply (TimePasses d) mw = mw"
| "env_apply WriterReceives mw =
     mw\<lparr>messageQueue := (messageQueue mw)\<lparr>buf := tl (buf (messageQueue mw))\<rparr>\<rparr>"
| "env_apply StopCalled mw = mw\<lparr>done_ch := (done_ch mw)\<lparr>closed := True\<rparr>\<rparr>"

fun QueueMessage_wait ::
  "bool \<Rightarrow> env_step list \<Rightarrow> message_writer \<Rightarrow> message \<Rightarrow> queue_outcome \<times> message_writer" where
  "QueueMessage_wait pick_send [] mw msg = QueueMessage pick_send mw msg"
| "QueueMessage_wait pick_send (e # es) mw msg =
     (case QueueMessage pick_send mw msg of
        (Parked, _) \<Rightarrow> QueueMessage_wait pick_send es (env_apply e mw) msg
      | (Enqueued, mw') \<Rightarrow> (Enqueued, mw')
      | (ReturnedOnDone, mw') \<Rightarrow> (ReturnedOnDone, mw'))"

subsection \<open>writeBatch\<close>

text \<open>
  A transaction handle holds the statements executed through it until commit.
  \<open>Begin\<close> and \<open>Commit\<close> can fail; the fault of attempt \<open>i\<close> is taken from a script.
\<close>

record tx =
  tx_writes :: "message list"

datatype conn_fault = NoFault | BeginFails | CommitFails

definition fault_at :: "conn_fault list \<Rightarrow> nat \<Rightarrow> conn_fault" where
  "fault_at faults i = (if i < length faults then faults ! i else NoFault)"

definition pool_Begin :: "database \<Rightarrow> conn_fault \<Rightarrow> tx option" where
  "pool_Begin db f = (if \<not> pool_up db \<or> f = BeginFails then None else Some \<lparr>tx_writes = []\<rparr>)"

definition tx_Rollback :: "database \<Rightarrow> tx \<Rightarrow> database" where
  "tx_Rollback db x = db"

definition tx_Commit :: "database \<Rightarrow> tx \<Rightarrow> conn_fault \<Rightarrow> database option" where
  "tx_Commit db x f =
     (if f = CommitFails then None else Some (db\<lparr>messages := messages db @ tx_writes x\<rparr>))"

record delivered_event =
  ev_message_id :: int
  ev_room_id :: uuid
  ev_user_id :: uuid
  ev_timestamp :: time
  ev_content :: string

definition message_delivered :: "message \<Rightarrow> delivered_event" where
  "message_delivered msg =
     \<lparr>ev_message_id = ID msg, ev_room_id = RoomID msg, ev_user_id = UserID msg,
      ev_timestamp = CreatedAt msg, ev_content = Content msg\<rparr>"

text \<open>\<open>cacheMessage\<close>: ZADD to the room's sorted set, score \<open>CreatedAt.UnixMilli()\<close>.\<close>

definition cacheMessage :: "message \<Rightarrow> uuid \<times> int \<times> int" where
  "cacheMessage msg = (RoomID msg, CreatedAt msg div Millisecond, ID msg)"

record pipeline =
  store :: database
  published :: "delivered_event list"
  cached :: "(uuid \<times> int \<times> int) list"

text \<open>
  The inner loop \<open>for _, msg := range batch\<close>: \<open>mw.db.CreateMessage(ctx, msg)\<close> for each
  message in order, stopping at the first error. The messages are pointers, so the ids
  and timestamps written by \<open>CreateMessage\<close> stay in the batch.
\<close>

fun insert_all ::
  "time \<Rightarrow> database \<Rightarrow> message list \<Rightarrow> database \<times> message list \<times> db_error option" where
  "insert_all now db [] = (db, [], None)"
| "insert_all now db (msg # rest) =
     (case CreateMessage now db msg of
        (db', msg', Some e) \<Rightarrow> (db', msg' # rest, Some e)
      | (db', msg', None) \<Rightarrow>
          (case insert_all now db' rest of (db'', rest', r) \<Rightarrow> (db'', msg' # rest', r)))"

text \<open>
  The retry loop \<open>for i := 0; i < maxRetries; i++\<close>; the first argument counts the
  attempts left. The sleeps between attempts change no state.
\<close>

fun writeBatch_loop ::
  "nat \<Rightarrow> nat \<Rightarrow> conn_fault list \<Rightarrow> time \<Rightarrow> pipeline \<Rightarrow> message list \<Rightarrow> pipeline" where
  "writeBatch_loop 0 i faults now st batch = st"
| "writeBatch_loop (Suc k) i faults now st batch =
     (case pool_Begin (store st) (fault_at faults i) of
        None \<Rightarrow> writeBatch_loop k (i + 1) faults now st batch
      | Some x \<Rightarrow>
          (case insert_all now (store st) batch of
             (db', batch', Some e) \<Rightarrow>
               writeBatch_loop k (i + 1) faults now (st\<lparr>store := tx_Rollback db' x\<rparr>) batch'
           | (db', batch', None) \<Rightarrow>
               (case tx_Commit db' x (fault_at faults i) of
                  None \<Rightarrow> writeBatch_loop k (i + 1) faults now (st\<lparr>store := db'\<rparr>) batch'
                | Some db'' \<Rightarrow>
                    st\<lparr>store := db'',
                       published := published st @ map message_delivered batch',
                       cached := cached st @ map cacheMessage batch'\<rparr>)))"

definition writeBatch :: "conn_fault list \<Rightarrow> time \<Rightarrow> pipeline \<Rightarrow> message list \<Rightarrow> pipeline" where
  "writeBatch faults now st batch =
     (if batch = [] then st else writeBatch_loop maxRetries 0 faults now st batch)"

section \<open>Frames\<close>

text \<open>
  A decoded frame is a \<open>map[string]interface{}\<close>. A JSON number is a \<open>float64\<close>
  in Go; \<open>JNumber\<close> carries its value as a rational (every finite \<open>float64\<close> is
  one). \<open>JUuid u\<close> stands for the string \<open>u.String()\<close>.
\<close>

datatype json =
    JNull
  | JBool bool
  | JNumber rat
  | JString string
  | JUuid uuid
  | JArray "json list"
  | JObject "(string \<times> json) list"

type_synonym frame = "(string \<times> json) list"

text \<open>The type assertions \<open>v.(string)\<close> and \<open>v.(float64)\<close> on a map lookup.\<close>

fun as_string :: "json option \<Rightarrow> string option" where
  "as_string (Some (JString s)) = Some s"
| "as_string _ = None"

fun as_float64 :: "json option \<Rightarrow> rat option" where
  "as_float64 (Some (JNumber n)) = Some n"
| "as_float64 _ = None"

text \<open>
  The conversion \<open>int64(f)\<close> of a \<open>float64\<close>: the fraction is discarded; a value
  outside the range of \<open>int64\<close> gives the result of the amd64 conversion, the least
  \<open>int64\<close> (the language leaves that case to the implementation).
\<close>

definition int64_of_float64 :: "rat \<Rightarrow> int" where
  "int64_of_float64 f =
     (let t = (if 0 \<le> f then \<lfloor>f\<rfloor> else \<lceil>f\<rceil>)
      in if - (2 ^ 63) \<le> t \<and> t < 2 ^ 63 then t else - (2 ^ 63))"

section \<open>Rooms and the room registry (internal/rooms/manager.go)\<close>

text \<open>
  Events are \<open>map[string]interface{}\<close> values. A client is identified by its pointer
  (\<open>cid\<close>); a Go map is an association list with distinct keys. A step either
  completes, or blocks on a channel send, or panics.
\<close>

type_synonym event = frame

record client =
  cid :: nat
  userID :: uuid
  send :: "event chan"

definition NewClient :: "nat \<Rightarrow> uuid \<Rightarrow> client" where
  "NewClient p user_id = \<lparr>cid = p, userID = user_id, send = make_chan 256\<rparr>"

record room =
  room_ID :: uuid
  clients :: "client list"
  broadcast :: "event chan"
  typingTrackers :: "(uuid \<times> time) list"

text \<open>
  \<open>probes\<close> are the goroutines started when a room is found empty: each sleeps one
  minute and then sends the room id on \<open>unregisterRoom\<close>.
\<close>

record manager =
  rooms :: "(uuid \<times> room) list"
  lastActivity :: "(uuid \<times> time) list"
  unregisterRoom :: "uuid chan"
  probes :: "(time \<times> uuid) list"

datatype 'a outcome = Ok 'a | Blocks | Panics

fun and_then :: "'a outcome \<Rightarrow> ('a \<Rightarrow> 'b outcome) \<Rightarrow> 'b outcome" where
  "and_then (Ok x) f = f x"
| "and_then Blocks f = Blocks"
| "and_then Panics f = Panics"

definition NewManager :: manager where
  "NewManager = \<lparr>rooms = [], lastActivity = [], unregisterRoom = make_chan 100, probes = []\<rparr>"

definition BroadcastUserEvent :: "uuid \<Rightarrow> uuid \<Rightarrow> string \<Rightarrow> manager \<Rightarrow> manager outcome" where
  "BroadcastUserEvent roomID user_id eventType m =
     (case map_of (rooms m) roomID of
        None \<Rightarrow> Ok m
      | Some room \<Rightarrow>
          (case chan_send (broadcast room)
                  [(''type'', JString eventType), (''user_id'', JUuid user_id),
                   (''room_id'', JUuid roomID)] of
             Sent ch \<Rightarrow> Ok (m\<lparr>rooms := AList.update roomID (room\<lparr>broadcast := ch\<rparr>) (rooms m)\<rparr>)
           | WouldBlock \<Rightarrow> Blocks
           | SendPanic \<Rightarrow> Panics))"

definition GetOrCreateRoom :: "time \<Rightarrow> uuid \<Rightarrow> manager \<Rightarrow> manager" where
  "GetOrCreateRoom now roomID m =
     (case map_of (rooms m) roomID of
        Some room \<Rightarrow> m\<lparr>lastActivity := AList.update roomID now (lastActivity m)\<rparr>
      | None \<Rightarrow>
          m\<lparr>rooms := AList.update roomID
                \<lparr>room_ID = roomID, clients = [], broadcast = make_chan 256,
                 typingTrackers = []\<rparr> (rooms m),
            lastActivity := AList.update roomID now (lastActivity m)\<rparr>)"

text \<open>
  \<open>removeRoom\<close>: delete the room from the map when it is there, then close its
  broadcast channel. Nothing else is looked at. \<open>lastActivity\<close> keeps its entry.
\<close>

definition removeRoom :: "uuid \<Rightarrow> manager \<Rightarrow> manager outcome" where
  "removeRoom roomID m =
     (case map_of (rooms m) roomID of
        None \<Rightarrow> Ok m
      | Some room \<Rightarrow>
          if closed (broadcast room) then Panics
          else Ok (m\<lparr>rooms := AList.delete roomID (rooms m)\<rparr>))"

text \<open>The manager loop, case \<open>roomID := <-m.unregisterRoom\<close>.\<close>

definition manager_loop_unregisterRoom :: "manager \<Rightarrow> manager outcome" where
  "manager_loop_unregisterRoom m =
     (case buf (unregisterRoom m) of
        [] \<Rightarrow> Ok m
      | roomID # rest \<Rightarrow>
          removeRoom roomID (m\<lparr>unregisterRoom := (unregisterRoom m)\<lparr>buf := rest\<rparr>\<rparr>))"

text \<open>A probe whose minute has passed sends its room id on \<open>unregisterRoom\<close>.\<close>

definition probe_fires :: "time \<Rightarrow> uuid \<Rightarrow> manager \<Rightarrow> manager outcome" where
  "probe_fires now roomID m =
     (case find (\<lambda>p. snd p = roomID \<and> fst p \<le> now) (probes m) of
        None \<Rightarrow> Ok m
      | Some p \<Rightarrow>
          (case chan_send (unregisterRoom m) roomID of
             Sent ch \<Rightarrow> Ok (m\<lparr>unregisterRoom := ch, probes := remove1 p (probes m)\<rparr>)
           | WouldBlock \<Rightarrow> Blocks
           | SendPanic \<Rightarrow> Panics))"

subsection \<open>handleRoom: the four cases of the room loop\<close>

text \<open>Case \<open>client := <-room.register\<close>.\<close>

definition handleRoom_register :: "time \<Rightarrow> uuid \<Rightarrow> client \<Rightarrow> manager \<Rightarrow> manager outcome" where
  "handleRoom_register now rid c m =
     (case map_of (rooms m) rid of
        None \<Rightarrow> Ok m
      | Some room \<Rightarrow>
          (let room' = room\<lparr>clients := (if cid c \<in> set (map cid (clients room))
                                        then clients room else clients room @ [c])\<rparr>;
               m1 = m\<lparr>rooms := AList.update rid room' (rooms m)\<rparr>;
               m2 = m1\<lparr>lastActivity := AList.update rid now (lastActivity m1)\<rparr>
           in BroadcastUserEvent rid (userID c) ''join'' m2))"

definition schedule_probe_if_empty :: "time \<Rightarrow> uuid \<Rightarrow> manager \<Rightarrow> manager" where
  "schedule_probe_if_empty now rid m =
     (case map_of (rooms m) rid of
        None \<Rightarrow> m
      | Some room \<Rightarrow>
          if length (clients room) = 0 then m\<lparr>probes := probes m @ [(now + 1 * Minute, rid)]\<rparr>
          else m)"

text \<open>Case \<open>client := <-room.unregister\<close>.\<close>

definition handleRoom_unregister :: "time \<Rightarrow> uuid \<Rightarrow> nat \<Rightarrow> manager \<Rightarrow> manager outcome" where
  "handleRoom_unregister now rid p m =
     (case map_of (rooms m) rid of
        None \<Rightarrow> Ok m
      | Some room \<Rightarrow>
          and_then
            (case find (\<lambda>c. cid c = p) (clients room) of
               None \<Rightarrow> Ok m
             | Some c \<Rightarrow>
                 if closed (send c) then Panics
                 else BroadcastUserEvent rid (userID c) ''leave''
                        (m\<lparr>rooms := AList.update rid
                              (room\<lparr>clients := filter (\<lambda>c. cid c \<noteq> p) (clients room)\<rparr>)
                              (rooms m)\<rparr>))
            (\<lambda>m'. Ok (schedule_probe_if_empty now rid m')))"

text \<open>
  Case \<open>message := <-room.broadcast\<close>: for each client
  \<open>select { case client.send <- message: default: }\<close>.
\<close>

definition select_send_default :: "event \<Rightarrow> client \<Rightarrow> client outcome" where
  "select_send_default message c =
     (case chan_send (send c) message of
        Sent ch \<Rightarrow> Ok (c\<lparr>send := ch\<rparr>)
      | WouldBlock \<Rightarrow> Ok c
      | SendPanic \<Rightarrow> Panics)"

fun deliver :: "event \<Rightarrow> client list \<Rightarrow> client list outcome" where
  "deliver message [] = Ok []"
| "deliver message (c # cs) =
     and_then (select_send_default message c)
       (\<lambda>c'. and_then (deliver message cs) (\<lambda>cs'. Ok (c' # cs')))"

fun deliver_all :: "event list \<Rightarrow> client list \<Rightarrow> client list outcome" where
  "deliver_all [] cs = Ok cs"
| "deliver_all (message # rest) cs = and_then (deliver message cs) (deliver_all rest)"

text \<open>
  A receive from the room's inbox: the oldest buffered event; the nil event (written
  as the empty frame) when the channel is closed and drained; nothing when it is open
  and empty.
\<close>

definition handleRoom_broadcast :: "time \<Rightarrow> uuid \<Rightarrow> manager \<Rightarrow> manager outcome" where
  "handleRoom_broadcast now rid m =
     (case map_of (rooms m) rid of
        None \<Rightarrow> Ok m
      | Some room \<Rightarrow>
          if buf (broadcast room) = [] \<and> \<not> closed (broadcast room) then Ok m
          else
            (let message = (case buf (broadcast room) of [] \<Rightarrow> [] | e # _ \<Rightarrow> e);
                 inbox = (broadcast room)\<lparr>buf := tl (buf (broadcast room))\<rparr>;
                 m1 = m\<lparr>lastActivity := AList.update rid now (lastActivity m)\<rparr>
             in and_then (deliver message (clients room))
                  (\<lambda>cs'. Ok (m1\<lparr>rooms := AList.update rid
                                  (room\<lparr>clients := cs', broadcast := inbox\<rparr>) (rooms m1)\<rparr>))))"

text \<open>Case \<open><-ticker.C\<close>: cleanup of stale typing indicators.\<close>

definition expire_typing :: "time \<Rightarrow> (uuid \<times> time) list \<Rightarrow> (uuid \<times> time) list" where
  "expire_typing now trackers =
     filter (\<lambda>(user_id, lastTyping). \<not> (now - lastTyping > 3 * Second)) trackers"

definition handleRoom_tick :: "time \<Rightarrow> uuid \<Rightarrow> manager \<Rightarrow> manager outcome" where
  "handleRoom_tick now rid m =
     (case map_of (rooms m) rid of
        None \<Rightarrow> Ok m
      | Some room \<Rightarrow>
          Ok (m\<lparr>rooms := AList.update rid
                  (room\<lparr>typingTrackers := expire_typing now (typingTrackers room)\<rparr>) (rooms m)\<rparr>))"

text \<open>
  The ticker of the room loop is \<open>time.NewTicker(5 * time.Second)\<close>. The ticker case
  does not use the tick's own time: each time it runs it takes the room's lock and then
  reads \<open>time.Now()\<close>. \<open>run_ticks nows\<close> handles one tick
  for each element of \<open>nows\<close>, in order, the element being the time that handling
  reads, with no other event on the tracker in between.
\<close>

fun run_ticks :: "time list \<Rightarrow> (uuid \<times> time) list \<Rightarrow> (uuid \<times> time) list" where
  "run_ticks [] trackers = trackers"
| "run_ticks (now # later) trackers = run_ticks later (expire_typing now trackers)"

text \<open>\<open>HandleTypingEvent\<close>, called by the session's read pump.\<close>

definition HandleTypingEvent :: "time \<Rightarrow> uuid \<Rightarrow> uuid \<Rightarrow> bool \<Rightarrow> manager \<Rightarrow> manager outcome" where
  "HandleTypingEvent now rid user_id isTyping m =
     (case map_of (rooms m) rid of
        None \<Rightarrow> Ok m
      | Some room \<Rightarrow>
          (let trackers = (if isTyping then AList.update user_id now (typingTrackers room)
                           else AList.delete user_id (typingTrackers room))
           in case chan_send (broadcast room)
                     [(''type'', JString ''typing_update''), (''user_id'', JUuid user_id),
                      (''is_typing'', JBool isTyping)] of
                Sent ch \<Rightarrow>
                  Ok (m\<lparr>rooms := AList.update rid
                          (room\<lparr>typingTrackers := trackers, broadcast := ch\<rparr>) (rooms m)\<rparr>)
              | WouldBlock \<Rightarrow> Blocks
              | SendPanic \<Rightarrow> Panics))"

subsection \<open>evictColdRooms: one tick of the sweeper\<close>

definition evict_if_cold :: "time \<Rightarrow> duration \<Rightarrow> manager \<Rightarrow> uuid \<times> time \<Rightarrow> manager" where
  "evict_if_cold now inactivityThreshold m entry =
     (case entry of (roomID, lastActive) \<Rightarrow>
        if now - lastActive > inactivityThreshold then
          (case map_of (rooms m) roomID of
             None \<Rightarrow> m
           | Some room \<Rightarrow>
               if length (clients room) = 0
               then m\<lparr>rooms := AList.delete roomID (rooms m),
                      lastActivity := AList.delete roomID (lastActivity m)\<rparr>
               else m)
        else m)"

definition evictColdRooms_tick :: "time \<Rightarrow> duration \<Rightarrow> manager \<Rightarrow> manager" where
  "evictColdRooms_tick now inactivityThreshold m =
     foldl (evict_if_cold now inactivityThreshold) m (lastActivity m)"

subsection \<open>Runs of the registry\<close>

datatype sys_event =
    Ev_GetOrCreateRoom uuid
  | Ev_register uuid client
  | Ev_unregister uuid nat
  | Ev_broadcast uuid
  | Ev_room_tick uuid
  | Ev_typing uuid uuid bool
  | Ev_probe_fires uuid
  | Ev_manager_unregisterRoom
  | Ev_sweeper_tick

fun step :: "time \<Rightarrow> sys_event \<Rightarrow> manager \<Rightarrow> manager outcome" where
  "step now (Ev_GetOrCreateRoom rid) m = Ok (GetOrCreateRoom now rid m)"
| "step now (Ev_register rid c) m = handleRoom_register now rid c m"
| "step now (Ev_unregister rid p) m = handleRoom_unregister now rid p m"
| "step now (Ev_broadcast rid) m = handleRoom_broadcast now rid m"
| "step now (Ev_room_tick rid) m = handleRoom_tick now rid m"
| "step now (Ev_typing rid user_id isTyping) m = HandleTypingEvent now rid user_id isTyping m"
| "step now (Ev_probe_fires rid) m = probe_fires now rid m"
| "step now Ev_manager_unregisterRoom m = manager_loop_unregisterRoom m"
| "step now Ev_sweeper_tick m = Ok (evictColdRooms_tick now (10 * Minute) m)"

fun run :: "(time \<times> sys_event) list \<Rightarrow> manager \<Rightarrow> manager outcome" where
  "run [] m = Ok m"
| "run ((now, e) # es) m = and_then (step now e m) (run es)"

text \<open>Observations of a run: the clients of a room, its sessions' queues, its tracker.\<close>

fun room_clients :: "uuid \<Rightarrow> manager outcome \<Rightarrow> nat list option outcome" where
  "room_clients rid (Ok m) = Ok (map_option (\<lambda>r. map cid (clients r)) (map_of (rooms m) rid))"
| "room_clients rid Blocks = Blocks"
| "room_clients rid Panics = Panics"

fun room_sessions :: "uuid \<Rightarrow> manager outcome \<Rightarrow> (nat \<times> bool \<times> nat) list option outcome" where
  "room_sessions rid (Ok m) =
     Ok (map_option (\<lambda>r. map (\<lambda>c. (cid c, closed (send c), length (buf (send c)))) (clients r))
           (map_of (rooms m) rid))"
| "room_sessions rid Blocks = Blocks"
| "room_sessions rid Panics = Panics"

fun room_typing :: "uuid \<Rightarrow> manager outcome \<Rightarrow> (uuid \<times> time) list option outcome" where
  "room_typing rid (Ok m) = Ok (map_option typingTrackers (map_of (rooms m) rid))"
| "room_typing rid Blocks = Blocks"
| "room_typing rid Panics = Panics"

section \<open>Session read pump (rooms: Client)\<close>

text \<open>
  What the connection has for the next \<open>ReadMessage\<close>: a failure (with whether
  \<open>IsUnexpectedCloseError\<close> holds of it, and its text), or a message of some bytes.
  \<open>SetReadLimit(maxMessageSize)\<close> makes a message of more than 512 bytes a read error
  (not a close error).
\<close>

definition maxMessageSize :: nat where
  "maxMessageSize = 512"

datatype ws_incoming = Wire_error bool string | Wire_message string

datatype ws_read = ReadFailed bool string | ReadOk string

fun ReadMessage :: "ws_incoming \<Rightarrow> ws_read" where
  "ReadMessage (Wire_error unexpected err) = ReadFailed unexpected err"
| "ReadMessage (Wire_message bytes) =
     (if maxMessageSize < length bytes then ReadFailed False ''websocket: read limit exceeded''
      else ReadOk bytes)"

text \<open>
  What the read pump acts on: the write pipeline, the registry with the session's room,
  the durable store, and the log (the texts given to \<open>log.Printf\<close>).
\<close>

record world =
  w_writer :: message_writer
  w_manager :: manager
  w_db :: database
  w_log :: "string list"

definition log_Printf :: "string \<Rightarrow> world \<Rightarrow> world" where
  "log_Printf line w = w\<lparr>w_log := w_log w @ [line]\<rparr>"

text \<open>
  One pass of the loop: it goes on to the next read, or leaves the loop (the deferred
  unregister and close follow), or the goroutine is parked in a channel operation, or
  it panics.
\<close>

datatype pump_result = Continue world | Break world | Parks | Crashes

text \<open>The struct literal of \<open>handleChatMessage\<close>.\<close>

definition chat_Message ::
  "time \<Rightarrow> uuid \<Rightarrow> uuid \<Rightarrow> string \<Rightarrow> string \<Rightarrow> string \<Rightarrow> message" where
  "chat_Message now room_id user_id content messageType fileURL =
     \<lparr>ID = 0, RoomID = room_id, UserID = user_id, Content = content,
      MessageType = messageType, FileURL = fileURL, ParentID = None, EditedAt = None,
      DeletedAt = None, CreatedAt = now\<rparr>"

definition handleChatMessage ::
  "bool \<Rightarrow> time \<Rightarrow> uuid \<Rightarrow> uuid \<Rightarrow> string \<Rightarrow> string \<Rightarrow> string \<Rightarrow> message_writer
     \<Rightarrow> queue_outcome \<times> message_writer" where
  "handleChatMessage pick_send now room_id user_id content messageType fileURL mw =
     QueueMessage pick_send mw (chat_Message now room_id user_id content messageType fileURL)"

text \<open>
  \<open>c.room.broadcast <- msg\<close>, a blocking send on the inbox of the session's room.
  As in the registry's steps, a room that has left the registry is not followed.
\<close>

definition room_broadcast_send :: "uuid \<Rightarrow> event \<Rightarrow> manager \<Rightarrow> manager outcome" where
  "room_broadcast_send rid e m =
     (case map_of (rooms m) rid of
        None \<Rightarrow> Ok m
      | Some room \<Rightarrow>
          (case chan_send (broadcast room) e of
             Sent ch \<Rightarrow> Ok (m\<lparr>rooms := AList.update rid (room\<lparr>broadcast := ch\<rparr>) (rooms m)\<rparr>)
           | WouldBlock \<Rightarrow> Blocks
           | SendPanic \<Rightarrow> Panics))"

fun after_manager :: "world \<Rightarrow> manager outcome \<Rightarrow> pump_result" where
  "after_manager w (Ok m) = Continue (w\<lparr>w_manager := m\<rparr>)"
| "after_manager w Blocks = Parks"
| "after_manager w Panics = Crashes"

fun after_queue :: "world \<Rightarrow> queue_outcome \<times> message_writer \<Rightarrow> pump_result" where
  "after_queue w (Enqueued, mw) = Continue (w\<lparr>w_writer := mw\<rparr>)"
| "after_queue w (ReturnedOnDone, mw) = Continue (w\<lparr>w_writer := mw\<rparr>)"
| "after_queue w (Parked, mw) = Parks"

text \<open>
  The body of the \<open>readPump\<close> loop, from \<open>ReadMessage\<close> on. \<open>unmarshalled\<close> is what
  \<open>json.Unmarshal\<close> answers for the bytes read: an error text or the decoded map.
  The read limit bounds the bytes read, not the decoded strings (\<open>json.Unmarshal\<close>
  puts the three bytes of U+FFFD for each invalid UTF-8 byte of a string).
  \<open>pick_send\<close> is the runtime's choice inside \<open>QueueMessage\<close>. The texts logged are
  the formatted messages, without the logger's prefix.
\<close>

definition readPump_iteration ::
  "bool \<Rightarrow> time \<Rightarrow> uuid \<Rightarrow> uuid \<Rightarrow> ws_incoming \<Rightarrow> string + frame \<Rightarrow> world \<Rightarrow> pump_result" where
  "readPump_iteration pick_send now room_id user_id incoming unmarshalled w =
     (case ReadMessage incoming of
        ReadFailed unexpected err \<Rightarrow>
          Break (if unexpected then log_Printf (''error: '' @ err) w else w)
      | ReadOk bytes \<Rightarrow>
          (case unmarshalled of
             Inl err \<Rightarrow> Continue (log_Printf (''error unmarshaling message: '' @ err) w)
           | Inr msg \<Rightarrow>
               (case as_string (map_of msg ''type'') of
                  None \<Rightarrow> Continue (log_Printf ''message type not found or invalid'' w)
                | Some messageType \<Rightarrow>
                    if messageType = ''message'' then
                      (case as_string (map_of msg ''content'') of
                         None \<Rightarrow> Continue (log_Printf ''message content not found or invalid'' w)
                       | Some content \<Rightarrow>
                           (let fileURL = (case as_string (map_of msg ''file_url'') of
                                             None \<Rightarrow> [] | Some x \<Rightarrow> x);
                                chatMessageType = (case as_string (map_of msg ''message_type'') of
                                             None \<Rightarrow> [] | Some x \<Rightarrow> x)
                            in after_queue w
                                 (handleChatMessage pick_send now room_id user_id content
                                    chatMessageType fileURL (w_writer w))))
                    else if messageType = ''typing_start'' then
                      after_manager w (HandleTypingEvent now room_id user_id True (w_manager w))
                    else if messageType = ''typing_stop'' then
                      after_manager w (HandleTypingEvent now room_id user_id False (w_manager w))
                    else if messageType = ''read'' then
                      (case as_float64 (map_of msg ''message_id'') of
                         None \<Rightarrow>
                           Continue (log_Printf
                             ''message_id for read receipt not found or invalid'' w)
                       | Some messageID \<Rightarrow>
                           Continue (w\<lparr>w_db := handleRead now (w_db w)
                                               (int64_of_float64 messageID) user_id\<rparr>))
                    else if messageType = ''message_edited'' \<or> messageType = ''message_deleted''
                      then after_manager w (room_broadcast_send room_id msg (w_manager w))
                    else if messageType = ''reaction_added'' \<or> messageType = ''reaction_removed''
                      then after_manager w (room_broadcast_send room_id msg (w_manager w))
                    else Continue (log_Printf (''unknown message type: '' @ messageType) w))))"

section \<open>Properties\<close>

section \<open>GetRoomMessages: the LIMIT placeholder\<close>

lemma string_rune_2: "string_rune 2 = [CHR 0x02]"
  by (simp add: string_rune_def char_of_def)

lemma string_rune_3: "string_rune 3 = [CHR 0x03]"
  by (simp add: string_rune_def char_of_def)

lemma pg_params_dollar_nondigit:
  "\<not> is_digit c \<Longrightarrow> None \<in> set (pg_params (xs @ [CHR ''$'', c]))"
  by (induction xs) (simp_all add: Let_def)

lemma GetRoomMessages_sql_text:
  "fst (GetRoomMessages_sql before) =
     (if before > 0
      then GetRoomMessages_base @ '' AND id < $2'' @ '' ORDER BY created_at DESC LIMIT '' @ [CHR ''$'', CHR 0x03]
      else GetRoomMessages_base @ '' ORDER BY created_at DESC LIMIT '' @ [CHR ''$'', CHR 0x02])"
  by (simp add: GetRoomMessages_sql_def Let_def string_rune_2 string_rune_3)

lemma GetRoomMessages_sql_malformed:
  "None \<in> set (pg_params (fst (GetRoomMessages_sql before)))"
proof (cases "before > 0")
  case True
  have "None \<in> set (pg_params ((GetRoomMessages_base @ '' AND id < $2''
          @ '' ORDER BY created_at DESC LIMIT '') @ [CHR ''$'', CHR 0x03]))"
    by (rule pg_params_dollar_nondigit) (simp add: is_digit_def)
  with True show ?thesis
    by (simp add: GetRoomMessages_sql_text)
next
  case False
  have "None \<in> set (pg_params ((GetRoomMessages_base
          @ '' ORDER BY created_at DESC LIMIT '') @ [CHR ''$'', CHR 0x02]))"
    by (rule pg_params_dollar_nondigit) (simp add: is_digit_def)
  with False show ?thesis
    by (simp add: GetRoomMessages_sql_text)
qed

text \<open>
  C10. For every room, limit and \<open>before\<close>, the text built by \<open>GetRoomMessages\<close> ends
  in \<open>LIMIT $\<close> followed by the control character U+0002 (U+0003 when \<open>before > 0\<close>),
  not by the digit \<open>2\<close> (\<open>3\<close>); that \<open>$\<close> is not a numbered placeholder, and the
  operation returns no message and an error for every input.
\<close>

theorem GetRoomMessages_limit_placeholder_is_control_char:
  "(\<exists>pre. fst (GetRoomMessages_sql before)
        = pre @ '' LIMIT $'' @ [if before > 0 then CHR 0x03 else CHR 0x02])
   \<and> \<not> is_digit (last (fst (GetRoomMessages_sql before)))
   \<and> None \<in> set (pg_params (fst (GetRoomMessages_sql before)))
   \<and> fst (GetRoomMessages db roomID limit before) = []
   \<and> snd (GetRoomMessages db roomID limit before) \<noteq> None"
proof -
  have shape: "\<exists>pre. fst (GetRoomMessages_sql before)
        = pre @ '' LIMIT $'' @ [if before > 0 then CHR 0x03 else CHR 0x02]"
  proof (cases "before > 0")
    case True
    then have "fst (GetRoomMessages_sql before)
        = (GetRoomMessages_base @ '' AND id < $2'' @ '' ORDER BY created_at DESC'')
          @ '' LIMIT $'' @ [if before > 0 then CHR 0x03 else CHR 0x02]"
      by (simp add: GetRoomMessages_sql_text)
    then show ?thesis by blast
  next
    case False
    then have "fst (GetRoomMessages_sql before)
        = (GetRoomMessages_base @ '' ORDER BY created_at DESC'')
          @ '' LIMIT $'' @ [if before > 0 then CHR 0x03 else CHR 0x02]"
      by (simp add: GetRoomMessages_sql_text)
    then show ?thesis by blast
  qed
  have lst: "\<not> is_digit (last (fst (GetRoomMessages_sql before)))"
    by (simp add: GetRoomMessages_sql_text is_digit_def)
  have bad: "None \<in> set (pg_params (fst (GetRoomMessages_sql before)))"
    by (rule GetRoomMessages_sql_malformed)
  have err: "pg_prepare db (fst (GetRoomMessages_sql before)) n \<noteq> None" for n
    using bad by (simp add: pg_prepare_def Let_def)
  have res: "fst (GetRoomMessages db roomID limit before) = []
     \<and> snd (GetRoomMessages db roomID limit before) \<noteq> None"
    using err [of "snd (GetRoomMessages_sql before)"]
    by (auto simp: GetRoomMessages_def split: prod.splits option.splits)
  from shape lst bad res show ?thesis by blast
qed

theorem GetRoomMessages_limit_placeholder_witness:
  "fst (GetRoomMessages_sql 0) = GetRoomMessages_base @ '' ORDER BY created_at DESC LIMIT $'' @ [CHR 0x02]
   \<and> GetRoomMessages
        \<lparr>users_tbl = [1], rooms_tbl = [7], room_members = [(7, 1)],
         messages = [zero_message\<lparr>ID := 1, RoomID := 7, UserID := 1, Content := ''hi''\<rparr>],
         message_reads = [], messages_id_seq = 1, pool_up = True\<rparr> 7 50 0
      = ([], Some SyntaxError)"
proof -
  let ?db = "\<lparr>users_tbl = [1], rooms_tbl = [7], room_members = [(7, 1)],
         messages = [zero_message\<lparr>ID := 1, RoomID := 7, UserID := 1, Content := ''hi''\<rparr>],
         message_reads = [], messages_id_seq = 1, pool_up = True\<rparr>"
  have "None \<in> set (pg_params (fst (GetRoomMessages_sql 0)))"
    using GetRoomMessages_limit_placeholder_is_control_char [of 0 ?db 7 50] by blast
  then have "pg_prepare ?db (fst (GetRoomMessages_sql 0)) n = Some SyntaxError" for n
    by (simp add: pg_prepare_def Let_def)
  then have run: "GetRoomMessages ?db 7 50 0 = ([], Some SyntaxError)"
    by (simp add: GetRoomMessages_def split_beta)
  have "fst (GetRoomMessages_sql 0)
      = GetRoomMessages_base @ '' ORDER BY created_at DESC LIMIT $'' @ [CHR 0x02]"
    by (simp add: GetRoomMessages_sql_text)
  with run show ?thesis by simp
qed

section \<open>Statements accepted by the server\<close>

lemma sprintf_d_3: "sprintf_d 3 = ''3''"
  by (simp add: sprintf_d.simps char_of_def)

lemma sprintf_d_4: "sprintf_d 4 = ''4''"
  by (simp add: sprintf_d.simps char_of_def)

lemma sprintf_d_5: "sprintf_d 5 = ''5''"
  by (simp add: sprintf_d.simps char_of_def)

lemma sprintf_d_6: "sprintf_d 6 = ''6''"
  by (simp add: sprintf_d.simps char_of_def)

lemma prepare_IsRoomMember:
  "pg_prepare db IsRoomMember_sql 2 = (if pool_up db then None else Some ConnError)"
  by (simp add: pg_prepare_def params_match_def IsRoomMember_sql_def Let_def is_digit_def upt_rec)


lemma prepare_CreateMessage:
  "pg_prepare db CreateMessage_sql 6 = (if pool_up db then None else Some ConnError)"
  by (simp add: pg_prepare_def params_match_def CreateMessage_sql_def Let_def is_digit_def upt_rec)

lemma prepare_GetMessageByID:
  "pg_prepare db GetMessageByID_sql (Suc 0) = (if pool_up db then None else Some ConnError)"
  by (simp add: pg_prepare_def params_match_def GetMessageByID_sql_def Let_def is_digit_def upt_rec)

lemma prepare_SearchMessages:
  "pg_prepare db (fst (SearchMessages_sql s b a)) (snd (SearchMessages_sql s b a))
     = (if pool_up db then None else Some ConnError)"
  by (cases s; cases b; cases a)
     (simp_all add: pg_prepare_def params_match_def SearchMessages_sql_def SearchMessages_base_def
        Let_def is_digit_def upt_rec sprintf_d_3 sprintf_d_4 sprintf_d_5 sprintf_d_6)

section \<open>Soft-deleted messages and the read paths\<close>

lemma GetMessageByID_not_deleted: "DeletedAt (fst (GetMessageByID db messageID)) = None"
proof (cases "pg_prepare db GetMessageByID_sql 1")
  case (Some e)
  then show ?thesis by (simp add: GetMessageByID_def zero_message_def)
next
  case None
  show ?thesis
  proof (cases "filter (\<lambda>m. ID m = messageID \<and> DeletedAt m = None) (messages db)")
    case Nil
    with None show ?thesis by (simp add: GetMessageByID_def zero_message_def)
  next
    case (Cons m ms)
    then have "m \<in> set (filter (\<lambda>m. ID m = messageID \<and> DeletedAt m = None) (messages db))"
      by simp
    then have "DeletedAt m = None" by simp
    with None Cons show ?thesis by (simp add: GetMessageByID_def)
  qed
qed

lemma GetRoomMessages_not_deleted:
  "m \<in> set (fst (GetRoomMessages db roomID limit before)) \<Longrightarrow> DeletedAt m = None"
  by (auto simp: GetRoomMessages_def split_beta split: option.splits if_splits
      dest!: in_set_takeD)

lemma SearchMessages_not_deleted:
  "m \<in> set (fst (SearchMessages ts_match ts_rank db roomID q limit senderID bt aft))
     \<Longrightarrow> DeletedAt m = None"
  by (auto simp: SearchMessages_def split_beta split: option.splits if_splits
      dest!: in_set_takeD)

text \<open>
  C7. Whatever \<open>GetMessageByID\<close>, \<open>GetRoomMessages\<close> and \<open>SearchMessages\<close> return
  has a null deleted-at; a message whose deleted-at is set is returned by none of them.
\<close>

theorem deleted_messages_never_returned:
  "DeletedAt (fst (GetMessageByID db messageID)) = None
   \<and> (\<forall>m \<in> set (fst (GetRoomMessages db roomID limit before)). DeletedAt m = None)
   \<and> (\<forall>m \<in> set (fst (SearchMessages ts_match ts_rank db roomID q limit senderID bt aft)).
         DeletedAt m = None)
   \<and> (DeletedAt d \<noteq> None \<longrightarrow>
         fst (GetMessageByID db messageID) \<noteq> d
         \<and> d \<notin> set (fst (GetRoomMessages db roomID limit before))
         \<and> d \<notin> set (fst (SearchMessages ts_match ts_rank db roomID q limit senderID bt aft)))"
  using GetMessageByID_not_deleted [of db messageID]
    GetRoomMessages_not_deleted [of _ db roomID limit before]
    SearchMessages_not_deleted [of _ ts_match ts_rank db roomID q limit senderID bt aft]
  by auto

section \<open>Read receipts\<close>












theorem deleted_messages_never_returned_witness:
  "SearchMessages (\<lambda>q m. True) (\<lambda>q m. 0::int)
     \<lparr>users_tbl = [1], rooms_tbl = [7], room_members = [(7, 1)],
      messages = [zero_message\<lparr>ID := 1, RoomID := 7, UserID := 1, Content := ''hello'', CreatedAt := 5\<rparr>,
                  zero_message\<lparr>ID := 2, RoomID := 7, UserID := 1, Content := ''hello'',
                               DeletedAt := Some 9, CreatedAt := 6\<rparr>],
      message_reads = [], messages_id_seq = 2, pool_up = True\<rparr> 7 ''hello'' 10 None None None
     = ([zero_message\<lparr>ID := 1, RoomID := 7, UserID := 1, Content := ''hello'', CreatedAt := 5\<rparr>], None)
   \<and> DeletedAt (zero_message\<lparr>ID := 1, RoomID := 7, UserID := 1, Content := ''hello'', CreatedAt := 5\<rparr>)
       = None
   \<and> GetMessageByID
     \<lparr>users_tbl = [1], rooms_tbl = [7], room_members = [(7, 1)],
      messages = [zero_message\<lparr>ID := 1, RoomID := 7, UserID := 1, Content := ''hello'', CreatedAt := 5\<rparr>,
                  zero_message\<lparr>ID := 2, RoomID := 7, UserID := 1, Content := ''hello'',
                               DeletedAt := Some 9, CreatedAt := 6\<rparr>],
      message_reads = [], messages_id_seq = 2, pool_up = True\<rparr> 2
     = (zero_message, Some ErrNoRows)"
proof -
  let ?m1 = "zero_message\<lparr>ID := 1, RoomID := 7, UserID := 1, Content := ''hello'', CreatedAt := 5\<rparr>"
  let ?m2 = "zero_message\<lparr>ID := 2, RoomID := 7, UserID := 1, Content := ''hello'',
                               DeletedAt := Some 9, CreatedAt := 6\<rparr>"
  let ?db = "\<lparr>users_tbl = [1], rooms_tbl = [7], room_members = [(7, 1)],
      messages = [?m1, ?m2], message_reads = [], messages_id_seq = 2, pool_up = True\<rparr>"
  have search: "SearchMessages (\<lambda>q m. True) (\<lambda>q m. 0::int) ?db 7 ''hello'' 10 None None None
      = ([?m1], None)"
    by (simp add: SearchMessages_def split_beta prepare_SearchMessages zero_message_def)
  have byid: "GetMessageByID ?db 2 = (zero_message, Some ErrNoRows)"
    by (simp add: GetMessageByID_def prepare_GetMessageByID zero_message_def)
  have "\<forall>m \<in> set (fst (SearchMessages (\<lambda>q m. True) (\<lambda>q m. 0::int) ?db 7 ''hello'' 10 None None None)).
          DeletedAt m = None"
    using deleted_messages_never_returned
      [of ?db 2 7 10 0 "\<lambda>q m. True" "\<lambda>q m. 0::int" "''hello''" None None None ?m2]
    by blast
  then have "DeletedAt ?m1 = None"
    by (simp add: search)
  with search byid show ?thesis by simp
qed

section \<open>Membership before upgrade\<close>

lemma IsRoomMember_true:
  "IsRoomMember db rid uid = (True, None)
     \<longleftrightarrow> pool_up db \<and> (rid, uid) \<in> set (room_members db)"
  by (auto simp: IsRoomMember_def prepare_IsRoomMember)

lemma WebSocketHandler_reached:
  "upgrade_reached (WebSocketHandler V P ok db req) \<longleftrightarrow>
     q_token req \<noteq> [] \<and> q_room_id req \<noteq> []
     \<and> (\<exists>uid rid. V (q_token req) = Some uid \<and> P (q_room_id req) = Some rid
            \<and> IsRoomMember db rid uid = (True, None))"
  by (auto simp: WebSocketHandler_def Let_def split: option.splits prod.splits if_splits)

lemma WebSocketHandler_forbidden:
  "q_token req \<noteq> [] \<Longrightarrow> V (q_token req) = Some uid \<Longrightarrow> q_room_id req \<noteq> []
     \<Longrightarrow> P (q_room_id req) = Some rid \<Longrightarrow> IsRoomMember db rid uid \<noteq> (True, None)
     \<Longrightarrow> WebSocketHandler V P ok db req = HttpError StatusForbidden ''Not a member of this room''"
  by (cases "IsRoomMember db rid uid") (auto simp: WebSocketHandler_def Let_def)

text \<open>
  C8. The handler reaches the upgrade exactly when the token is present and valid, the
  room id is present and parses, and \<open>IsRoomMember\<close> answers true without error, that
  is, when the store is reachable and holds the (room, user) membership row. For a valid
  token and a room id that parses, a user who is not a member, or a membership check
  that errors, gets the 403 response and no upgrade.
\<close>

theorem WebSocketHandler_membership_before_upgrade:
  "(upgrade_reached (WebSocketHandler V P ok db req) \<longleftrightarrow>
      q_token req \<noteq> [] \<and> q_room_id req \<noteq> []
      \<and> (\<exists>uid rid. V (q_token req) = Some uid \<and> P (q_room_id req) = Some rid
             \<and> IsRoomMember db rid uid = (True, None)))
   \<and> (IsRoomMember db rid uid = (True, None)
        \<longleftrightarrow> pool_up db \<and> (rid, uid) \<in> set (room_members db))
   \<and> (q_token req \<noteq> [] \<and> V (q_token req) = Some uid \<and> q_room_id req \<noteq> []
        \<and> P (q_room_id req) = Some rid
        \<and> (snd (IsRoomMember db rid uid) \<noteq> None \<or> \<not> fst (IsRoomMember db rid uid))
      \<longrightarrow> WebSocketHandler V P ok db req = HttpError 403 ''Not a member of this room''
          \<and> \<not> upgrade_reached (WebSocketHandler V P ok db req))"
proof -
  have forb: "WebSocketHandler V P ok db req = HttpError 403 ''Not a member of this room''
          \<and> \<not> upgrade_reached (WebSocketHandler V P ok db req)"
    if "q_token req \<noteq> []" "V (q_token req) = Some uid" "q_room_id req \<noteq> []"
       "P (q_room_id req) = Some rid"
       "snd (IsRoomMember db rid uid) \<noteq> None \<or> \<not> fst (IsRoomMember db rid uid)"
  proof -
    from that(5) have "IsRoomMember db rid uid \<noteq> (True, None)" by auto
    with that(1-4) have "WebSocketHandler V P ok db req
        = HttpError StatusForbidden ''Not a member of this room''"
      by (rule WebSocketHandler_forbidden [where uid = uid and rid = rid])
    then show ?thesis by (simp add: StatusForbidden_def)
  qed
  show ?thesis
    using WebSocketHandler_reached [of V P ok db req] IsRoomMember_true [of db rid uid] forb
    by blast
qed

theorem WebSocketHandler_membership_witness:
  "WebSocketHandler (\<lambda>t. if t = ''tok'' then Some 1 else None)
      (\<lambda>r. if r = ''room7'' then Some 7 else if r = ''room8'' then Some 8 else None) True
      \<lparr>users_tbl = [1], rooms_tbl = [7, 8], room_members = [(7, 1)], messages = [],
       message_reads = [], messages_id_seq = 0, pool_up = True\<rparr>
      \<lparr>q_token = ''tok'', q_room_id = ''room8''\<rparr>
     = HttpError 403 ''Not a member of this room''
   \<and> WebSocketHandler (\<lambda>t. if t = ''tok'' then Some 1 else None)
      (\<lambda>r. if r = ''room7'' then Some 7 else if r = ''room8'' then Some 8 else None) True
      \<lparr>users_tbl = [1], rooms_tbl = [7, 8], room_members = [(7, 1)], messages = [],
       message_reads = [], messages_id_seq = 0, pool_up = True\<rparr>
      \<lparr>q_token = ''tok'', q_room_id = ''room7''\<rparr>
     = Connected 7 1"
proof -
  let ?V = "\<lambda>t. if t = ''tok'' then Some (1::uuid) else None"
  let ?P = "\<lambda>r. if r = ''room7'' then Some (7::uuid) else if r = ''room8'' then Some 8 else None"
  let ?db = "\<lparr>users_tbl = [1], rooms_tbl = [7, 8], room_members = [(7, 1)], messages = [],
       message_reads = [], messages_id_seq = 0, pool_up = True\<rparr>"
  have no: "IsRoomMember ?db 8 1 = (False, None)"
    by (simp add: IsRoomMember_def prepare_IsRoomMember)
  have yes: "IsRoomMember ?db 7 1 = (True, None)"
    by (simp add: IsRoomMember_def prepare_IsRoomMember)
  have "WebSocketHandler ?V ?P True ?db \<lparr>q_token = ''tok'', q_room_id = ''room8''\<rparr>
      = HttpError 403 ''Not a member of this room''"
    using WebSocketHandler_membership_before_upgrade
      [of ?V ?P True ?db "\<lparr>q_token = ''tok'', q_room_id = ''room8''\<rparr>" 8 1] no
    by simp
  moreover have "WebSocketHandler ?V ?P True ?db \<lparr>q_token = ''tok'', q_room_id = ''room7''\<rparr>
      = Connected 7 1"
    by (simp add: WebSocketHandler_def yes)
  ultimately show ?thesis by simp
qed

section \<open>writeBatch and the transaction it begins\<close>

lemma CreateMessage_up:
  "pool_up db \<Longrightarrow> CreateMessage now db msg =
     (if MessageType msg \<notin> set [''text'', ''image'', ''file'']
      then (db\<lparr>messages_id_seq := messages_id_seq db + 1\<rparr>, msg, Some CheckViolation)
      else if RoomID msg \<notin> set (rooms_tbl db) \<or> UserID msg \<notin> set (users_tbl db)
              \<or> (case ParentID msg of None \<Rightarrow> False | Some p \<Rightarrow> p \<notin> set (map ID (messages db)))
      then (db\<lparr>messages_id_seq := messages_id_seq db + 1\<rparr>, msg, Some ForeignKeyViolation)
      else (db\<lparr>messages_id_seq := messages_id_seq db + 1,
               messages := messages db
                  @ [\<lparr>ID = messages_id_seq db + 1, RoomID = RoomID msg, UserID = UserID msg,
                      Content = Content msg, MessageType = MessageType msg,
                      FileURL = FileURL msg, ParentID = ParentID msg,
                      EditedAt = None, DeletedAt = None, CreatedAt = now\<rparr>]\<rparr>,
            msg\<lparr>ID := messages_id_seq db + 1, CreatedAt := now\<rparr>, None))"
  by (simp add: CreateMessage_def prepare_CreateMessage Let_def)

lemma maxRetries_Suc: "maxRetries = Suc (Suc (Suc (Suc (Suc 0))))"
  by (simp add: maxRetries_def eval_nat_numeral)

text \<open>
  The transaction handle never receives a statement: \<open>CreateMessage\<close> writes through
  the pool, so commit and rollback of the handle leave the store as the inserts left it.
\<close>

lemma tx_of_writeBatch_is_empty:
  "pool_Begin db f = Some x \<Longrightarrow> tx_Rollback db' x = db' \<and> tx_Commit db' x NoFault = Some db'"
  by (auto simp: pool_Begin_def tx_Rollback_def tx_Commit_def split: if_splits)

text \<open>
  C1 (the code at a failing input). A batch of two messages of user 1 in room 7: the
  first of type \<open>text\<close>, the second with the empty message type of a frame that has no
  \<open>message_type\<close>, which the CHECK constraint of the schema rejects. The insert of the
  second fails in each of the five attempts; the row of the first, inserted through the
  pool, is durable each time. The store ends with five rows for the first message and
  nothing is published, where an all-or-nothing batch leaves the store unchanged.
\<close>

theorem writeBatch_failed_insert_keeps_earlier_rows:
  "map (\<lambda>m. (ID m, Content m)) (messages (store (writeBatch [] 1000
     \<lparr>store = \<lparr>users_tbl = [1], rooms_tbl = [7], room_members = [(7, 1)], messages = [],
                message_reads = [], messages_id_seq = 0, pool_up = True\<rparr>,
      published = [], cached = []\<rparr>
     [zero_message\<lparr>RoomID := 7, UserID := 1, Content := ''a'', MessageType := ''text''\<rparr>,
      zero_message\<lparr>RoomID := 7, UserID := 1, Content := ''b''\<rparr>])))
     = [(1, ''a''), (3, ''a''), (5, ''a''), (7, ''a''), (9, ''a'')]
   \<and> published (writeBatch [] 1000
     \<lparr>store = \<lparr>users_tbl = [1], rooms_tbl = [7], room_members = [(7, 1)], messages = [],
                message_reads = [], messages_id_seq = 0, pool_up = True\<rparr>,
      published = [], cached = []\<rparr>
     [zero_message\<lparr>RoomID := 7, UserID := 1, Content := ''a'', MessageType := ''text''\<rparr>,
      zero_message\<lparr>RoomID := 7, UserID := 1, Content := ''b''\<rparr>]) = []"
  by (simp add: writeBatch_def maxRetries_Suc pool_Begin_def fault_at_def
      CreateMessage_up zero_message_def tx_Rollback_def)

section \<open>QueueMessage on a full queue\<close>

lemma QueueMessage_full_running:
  "\<not> closed (done_ch mw) \<Longrightarrow> cap (messageQueue mw) \<le> length (buf (messageQueue mw))
     \<Longrightarrow> QueueMessage pick mw msg = (Parked, mw)"
  by (simp add: QueueMessage_def)

lemma QueueMessage_wait_time_passes:
  "QueueMessage pick mw msg = (Parked, mw)
     \<Longrightarrow> QueueMessage_wait pick (map TimePasses ds @ es) mw msg = QueueMessage_wait pick es mw msg"
proof (induction ds)
  case Nil
  then show ?case by simp
next
  case (Cons d ds)
  then show ?case by (cases es) simp_all
qed

text \<open>
  C4, as stated, fails: with the queue of a running writer full (1000 of 1000), a
  caller of \<open>QueueMessage\<close> is still parked after two minutes; it has not returned.
\<close>

theorem QueueMessage_full_queue_counterexample:
  "QueueMessage_wait True [TimePasses Minute, TimePasses Minute]
     (NewMessageWriter\<lparr>messageQueue :=
        \<lparr>buf = replicate 1000 zero_message, cap = 1000, closed = False\<rparr>\<rparr>) zero_message
   = (Parked, NewMessageWriter\<lparr>messageQueue :=
        \<lparr>buf = replicate 1000 zero_message, cap = 1000, closed = False\<rparr>\<rparr>)"
  by (simp add: QueueMessage_def NewMessageWriter_def make_chan_def)

text \<open>
  C4, amended. While the pipeline is running and its queue is full, \<open>QueueMessage\<close>
  does not return, however much time passes: there is no timeout. The call completes
  only when the writer task frees a slot, and then the message is enqueued, or when
  \<open>Stop\<close> closes \<open>done\<close>, and then it returns without enqueuing.
\<close>

theorem QueueMessage_full_queue_blocks:
  assumes "\<not> closed (done_ch mw)"
    and "cap (messageQueue mw) \<le> length (buf (messageQueue mw))"
  shows "QueueMessage_wait pick (map TimePasses ds) mw msg = (Parked, mw)
     \<and> QueueMessage_wait pick (map TimePasses ds @ [StopCalled]) mw msg
         = (ReturnedOnDone, mw\<lparr>done_ch := (done_ch mw)\<lparr>closed := True\<rparr>\<rparr>)
     \<and> (length (buf (messageQueue mw)) = cap (messageQueue mw) \<and> 0 < cap (messageQueue mw)
          \<longrightarrow> QueueMessage_wait pick (map TimePasses ds @ [WriterReceives]) mw msg
                = (Enqueued, mw\<lparr>messageQueue :=
                     (messageQueue mw)\<lparr>buf := tl (buf (messageQueue mw)) @ [msg]\<rparr>\<rparr>))"
proof -
  have parked: "QueueMessage pick mw msg = (Parked, mw)"
    using assms by (rule QueueMessage_full_running)
  have a: "QueueMessage_wait pick (map TimePasses ds) mw msg = (Parked, mw)"
    using QueueMessage_wait_time_passes [OF parked, of ds "[]"] parked by simp
  have b: "QueueMessage_wait pick (map TimePasses ds @ [StopCalled]) mw msg
         = (ReturnedOnDone, mw\<lparr>done_ch := (done_ch mw)\<lparr>closed := True\<rparr>\<rparr>)"
    using QueueMessage_wait_time_passes [OF parked, of ds "[StopCalled]"] parked assms
    by (simp add: QueueMessage_def)
  have c: "QueueMessage_wait pick (map TimePasses ds @ [WriterReceives]) mw msg
                = (Enqueued, mw\<lparr>messageQueue :=
                     (messageQueue mw)\<lparr>buf := tl (buf (messageQueue mw)) @ [msg]\<rparr>\<rparr>)"
    if "length (buf (messageQueue mw)) = cap (messageQueue mw)" "0 < cap (messageQueue mw)"
    using QueueMessage_wait_time_passes [OF parked, of ds "[WriterReceives]"] parked assms that
    by (simp add: QueueMessage_def)
  from a b c show ?thesis by blast
qed

theorem QueueMessage_full_queue_blocks_witness:
  "\<not> closed (done_ch (NewMessageWriter\<lparr>messageQueue :=
        \<lparr>buf = replicate 1000 zero_message, cap = 1000, closed = False\<rparr>\<rparr>))
   \<and> cap (messageQueue (NewMessageWriter\<lparr>messageQueue :=
        \<lparr>buf = replicate 1000 zero_message, cap = 1000, closed = False\<rparr>\<rparr>))
      \<le> length (buf (messageQueue (NewMessageWriter\<lparr>messageQueue :=
        \<lparr>buf = replicate 1000 zero_message, cap = 1000, closed = False\<rparr>\<rparr>)))
   \<and> fst (QueueMessage_wait False (map TimePasses [Second, Minute, 60 * Minute])
        (NewMessageWriter\<lparr>messageQueue :=
           \<lparr>buf = replicate 1000 zero_message, cap = 1000, closed = False\<rparr>\<rparr>) zero_message)
      = Parked
   \<and> fst (QueueMessage_wait False (map TimePasses [Second, Minute, 60 * Minute] @ [StopCalled])
        (NewMessageWriter\<lparr>messageQueue :=
           \<lparr>buf = replicate 1000 zero_message, cap = 1000, closed = False\<rparr>\<rparr>) zero_message)
      = ReturnedOnDone
   \<and> fst (QueueMessage_wait False (map TimePasses [Second, Minute, 60 * Minute] @ [WriterReceives])
        (NewMessageWriter\<lparr>messageQueue :=
           \<lparr>buf = replicate 1000 zero_message, cap = 1000, closed = False\<rparr>\<rparr>) zero_message)
      = Enqueued"
proof -
  let ?mw = "NewMessageWriter\<lparr>messageQueue :=
        \<lparr>buf = replicate 1000 zero_message, cap = 1000, closed = False\<rparr>\<rparr>"
  have h1: "\<not> closed (done_ch ?mw)"
    by (simp add: NewMessageWriter_def make_chan_def)
  have h2: "cap (messageQueue ?mw) \<le> length (buf (messageQueue ?mw))"
    by simp
  have h3: "length (buf (messageQueue ?mw)) = cap (messageQueue ?mw) \<and> 0 < cap (messageQueue ?mw)"
    by simp
  from QueueMessage_full_queue_blocks [OF h1 h2, of False "[Second, Minute, 60 * Minute]" zero_message]
    h1 h2 h3
  show ?thesis by simp
qed

section \<open>Frames of type message\<close>

lemma ReadMessage_within_limit:
  "length bytes \<le> maxMessageSize \<Longrightarrow> ReadMessage (Wire_message bytes) = ReadOk bytes"
  by simp

lemma readPump_message_step:
  assumes "length bytes \<le> maxMessageSize"
    and "as_string (map_of msg ''type'') = Some ''message''"
    and "as_string (map_of msg ''content'') = Some content"
  shows "readPump_iteration pick now room_id user_id (Wire_message bytes) (Inr msg) w
     = after_queue w (QueueMessage pick (w_writer w)
         (chat_Message now room_id user_id content
            (case as_string (map_of msg ''message_type'') of None \<Rightarrow> [] | Some x \<Rightarrow> x)
            (case as_string (map_of msg ''file_url'') of None \<Rightarrow> [] | Some x \<Rightarrow> x)))"
  using assms by (simp add: readPump_iteration_def handleChatMessage_def Let_def)

text \<open>
  C5, as stated, fails: once \<open>Stop\<close> has closed \<open>done\<close>, a frame of type
  \<open>message\<close> with its content is read and the Message is built, but nothing is
  enqueued. With the queue full, only the \<open>done\<close> case of \<open>QueueMessage\<close> is ready
  and the call returns without the message; with room in the queue both cases are ready
  and the runtime may take the \<open>done\<close> case. The session goes on to its next read
  with the pipeline's queue as it was.
\<close>

theorem readPump_message_not_enqueued_counterexample:
  "readPump_iteration True 5 7 1
     (Wire_message (concat [''{'', [CHR 0x22], ''type'', [CHR 0x22], '':'', [CHR 0x22],
        ''message'', [CHR 0x22], '','', [CHR 0x22], ''content'', [CHR 0x22], '':'',
        [CHR 0x22], ''hi'', [CHR 0x22], ''}'']))
     (Inr [(''type'', JString ''message''), (''content'', JString ''hi'')])
     \<lparr>w_writer = \<lparr>messageQueue = \<lparr>buf = replicate 1000 zero_message, cap = 1000, closed = False\<rparr>,
                  done_ch = \<lparr>buf = [], cap = 0, closed = True\<rparr>, batchSize = 50,
                  flushInterval = 100 * Millisecond\<rparr>,
      w_manager = NewManager,
      w_db = \<lparr>users_tbl = [1], rooms_tbl = [7], room_members = [(7, 1)], messages = [],
              message_reads = [], messages_id_seq = 0, pool_up = True\<rparr>,
      w_log = []\<rparr>
   = Continue
     \<lparr>w_writer = \<lparr>messageQueue = \<lparr>buf = replicate 1000 zero_message, cap = 1000, closed = False\<rparr>,
                  done_ch = \<lparr>buf = [], cap = 0, closed = True\<rparr>, batchSize = 50,
                  flushInterval = 100 * Millisecond\<rparr>,
      w_manager = NewManager,
      w_db = \<lparr>users_tbl = [1], rooms_tbl = [7], room_members = [(7, 1)], messages = [],
              message_reads = [], messages_id_seq = 0, pool_up = True\<rparr>,
      w_log = []\<rparr>
   \<and> readPump_iteration False 5 7 1
     (Wire_message (concat [''{'', [CHR 0x22], ''type'', [CHR 0x22], '':'', [CHR 0x22],
        ''message'', [CHR 0x22], '','', [CHR 0x22], ''content'', [CHR 0x22], '':'',
        [CHR 0x22], ''hi'', [CHR 0x22], ''}'']))
     (Inr [(''type'', JString ''message''), (''content'', JString ''hi'')])
     \<lparr>w_writer = \<lparr>messageQueue = \<lparr>buf = [], cap = 1000, closed = False\<rparr>,
                  done_ch = \<lparr>buf = [], cap = 0, closed = True\<rparr>, batchSize = 50,
                  flushInterval = 100 * Millisecond\<rparr>,
      w_manager = NewManager,
      w_db = \<lparr>users_tbl = [1], rooms_tbl = [7], room_members = [(7, 1)], messages = [],
              message_reads = [], messages_id_seq = 0, pool_up = True\<rparr>,
      w_log = []\<rparr>
   = Continue
     \<lparr>w_writer = \<lparr>messageQueue = \<lparr>buf = [], cap = 1000, closed = False\<rparr>,
                  done_ch = \<lparr>buf = [], cap = 0, closed = True\<rparr>, batchSize = 50,
                  flushInterval = 100 * Millisecond\<rparr>,
      w_manager = NewManager,
      w_db = \<lparr>users_tbl = [1], rooms_tbl = [7], room_members = [(7, 1)], messages = [],
              message_reads = [], messages_id_seq = 0, pool_up = True\<rparr>,
      w_log = []\<rparr>"
  by (simp add: readPump_iteration_def handleChatMessage_def QueueMessage_def maxMessageSize_def)

text \<open>
  C5, amended. For every frame of type \<open>message\<close> that the session reads (at most
  512 bytes) and whose \<open>content\<close> is a string, the session builds a Message whose
  room is the session's room, whose author is the session's user, whose creation
  timestamp is the current time and whose content is the frame's, and gives it to the
  pipeline's \<open>QueueMessage\<close>. The message is appended to the pipeline's queue when the
  queue has room and the pipeline has not been stopped; with a full queue the session is
  parked while the pipeline runs, and the message is dropped once it has been stopped.
  Whenever the session goes on, the registry with the room's inbox and its sessions'
  queues, the store and the log are as before: nothing is broadcast to the local room.
\<close>

theorem readPump_message_frame:
  assumes "length bytes \<le> maxMessageSize"
    and "as_string (map_of msg ''type'') = Some ''message''"
    and "as_string (map_of msg ''content'') = Some content"
  shows "\<exists>m. RoomID m = room_id \<and> UserID m = user_id \<and> CreatedAt m = now \<and> Content m = content
     \<and> readPump_iteration pick now room_id user_id (Wire_message bytes) (Inr msg) w
         = after_queue w (QueueMessage pick (w_writer w) m)
     \<and> (length (buf (messageQueue (w_writer w))) < cap (messageQueue (w_writer w))
          \<and> \<not> closed (done_ch (w_writer w))
        \<longrightarrow> readPump_iteration pick now room_id user_id (Wire_message bytes) (Inr msg) w
            = Continue (w\<lparr>w_writer := (w_writer w)\<lparr>messageQueue :=
                 (messageQueue (w_writer w))\<lparr>buf := buf (messageQueue (w_writer w)) @ [m]\<rparr>\<rparr>\<rparr>))
     \<and> (cap (messageQueue (w_writer w)) \<le> length (buf (messageQueue (w_writer w)))
          \<and> \<not> closed (done_ch (w_writer w))
        \<longrightarrow> readPump_iteration pick now room_id user_id (Wire_message bytes) (Inr msg) w = Parks)
     \<and> (cap (messageQueue (w_writer w)) \<le> length (buf (messageQueue (w_writer w)))
          \<and> closed (done_ch (w_writer w))
        \<longrightarrow> readPump_iteration pick now room_id user_id (Wire_message bytes) (Inr msg) w
            = Continue w)
     \<and> (\<forall>w'. readPump_iteration pick now room_id user_id (Wire_message bytes) (Inr msg) w
               = Continue w'
          \<longrightarrow> w_manager w' = w_manager w \<and> w_db w' = w_db w \<and> w_log w' = w_log w
              \<and> (w_writer w' = w_writer w \<and> closed (done_ch (w_writer w))
                  \<or> w_writer w' = (w_writer w)\<lparr>messageQueue :=
                       (messageQueue (w_writer w))\<lparr>buf := buf (messageQueue (w_writer w)) @ [m]\<rparr>\<rparr>))
     \<and> (\<forall>w'. readPump_iteration pick now room_id user_id (Wire_message bytes) (Inr msg) w
               \<noteq> Break w')
     \<and> readPump_iteration pick now room_id user_id (Wire_message bytes) (Inr msg) w \<noteq> Crashes"
proof -
  let ?m = "chat_Message now room_id user_id content
            (case as_string (map_of msg ''message_type'') of None \<Rightarrow> [] | Some x \<Rightarrow> x)
            (case as_string (map_of msg ''file_url'') of None \<Rightarrow> [] | Some x \<Rightarrow> x)"
  let ?r = "readPump_iteration pick now room_id user_id (Wire_message bytes) (Inr msg) w"
  have fields: "RoomID ?m = room_id \<and> UserID ?m = user_id \<and> CreatedAt ?m = now \<and> Content ?m = content"
    by (simp add: chat_Message_def)
  have r: "?r = after_queue w (QueueMessage pick (w_writer w) ?m)"
    using assms by (rule readPump_message_step)
  have a: "?r = Continue (w\<lparr>w_writer := (w_writer w)\<lparr>messageQueue :=
                 (messageQueue (w_writer w))\<lparr>buf := buf (messageQueue (w_writer w)) @ [?m]\<rparr>\<rparr>\<rparr>)"
    if "length (buf (messageQueue (w_writer w))) < cap (messageQueue (w_writer w))
          \<and> \<not> closed (done_ch (w_writer w))"
    using that by (simp add: r QueueMessage_def)
  have b: "?r = Parks"
    if "cap (messageQueue (w_writer w)) \<le> length (buf (messageQueue (w_writer w)))
          \<and> \<not> closed (done_ch (w_writer w))"
    using that by (simp add: r QueueMessage_def)
  have c: "?r = Continue w"
    if "cap (messageQueue (w_writer w)) \<le> length (buf (messageQueue (w_writer w)))
          \<and> closed (done_ch (w_writer w))"
    using that by (simp add: r QueueMessage_def)
  have d: "w_manager w' = w_manager w \<and> w_db w' = w_db w \<and> w_log w' = w_log w
              \<and> (w_writer w' = w_writer w \<and> closed (done_ch (w_writer w))
                  \<or> w_writer w' = (w_writer w)\<lparr>messageQueue :=
                       (messageQueue (w_writer w))\<lparr>buf := buf (messageQueue (w_writer w)) @ [?m]\<rparr>\<rparr>)"
    if "?r = Continue w'" for w'
    using that by (auto simp: r QueueMessage_def Let_def split: if_splits)
  have e: "?r \<noteq> Break w'" for w'
    by (auto simp: r QueueMessage_def Let_def split: if_splits)
  have f: "?r \<noteq> Crashes"
    by (auto simp: r QueueMessage_def Let_def split: if_splits)
  from fields r a b c d e f show ?thesis by blast
qed

theorem readPump_message_frame_witness:
  "length (concat [''{'', [CHR 0x22], ''type'', [CHR 0x22], '':'', [CHR 0x22],
        ''message'', [CHR 0x22], '','', [CHR 0x22], ''content'', [CHR 0x22], '':'',
        [CHR 0x22], ''hi'', [CHR 0x22], ''}'']) \<le> maxMessageSize
   \<and> as_string (map_of [(''type'', JString ''message''), (''content'', JString ''hi'')] ''type'')
     = Some ''message''
   \<and> as_string (map_of [(''type'', JString ''message''), (''content'', JString ''hi'')] ''content'')
     = Some ''hi''
   \<and> readPump_iteration True 5 7 1
     (Wire_message (concat [''{'', [CHR 0x22], ''type'', [CHR 0x22], '':'', [CHR 0x22],
        ''message'', [CHR 0x22], '','', [CHR 0x22], ''content'', [CHR 0x22], '':'',
        [CHR 0x22], ''hi'', [CHR 0x22], ''}'']))
     (Inr [(''type'', JString ''message''), (''content'', JString ''hi'')])
     \<lparr>w_writer = NewMessageWriter, w_manager = NewManager,
      w_db = \<lparr>users_tbl = [1], rooms_tbl = [7], room_members = [(7, 1)], messages = [],
              message_reads = [], messages_id_seq = 0, pool_up = True\<rparr>,
      w_log = []\<rparr>
   = Continue
     \<lparr>w_writer = NewMessageWriter\<lparr>messageQueue :=
         \<lparr>buf = [\<lparr>ID = 0, RoomID = 7, UserID = 1, Content = ''hi'', MessageType = [],
                   FileURL = [], ParentID = None, EditedAt = None, DeletedAt = None,
                   CreatedAt = 5\<rparr>],
          cap = 1000, closed = False\<rparr>\<rparr>,
      w_manager = NewManager,
      w_db = \<lparr>users_tbl = [1], rooms_tbl = [7], room_members = [(7, 1)], messages = [],
              message_reads = [], messages_id_seq = 0, pool_up = True\<rparr>,
      w_log = []\<rparr>
   \<and> readPump_iteration True 5 7 1
     (Wire_message (concat [''{'', [CHR 0x22], ''type'', [CHR 0x22], '':'', [CHR 0x22],
        ''message'', [CHR 0x22], '','', [CHR 0x22], ''content'', [CHR 0x22], '':'',
        [CHR 0x22], ''hi'', [CHR 0x22], ''}'']))
     (Inr [(''type'', JString ''message''), (''content'', JString ''hi'')])
     \<lparr>w_writer = NewMessageWriter, w_manager = NewManager,
      w_db = \<lparr>users_tbl = [1], rooms_tbl = [7], room_members = [(7, 1)], messages = [],
              message_reads = [], messages_id_seq = 0, pool_up = True\<rparr>,
      w_log = []\<rparr>
   \<noteq> Crashes"
proof -
  let ?bytes = "concat [''{'', [CHR 0x22], ''type'', [CHR 0x22], '':'', [CHR 0x22],
        ''message'', [CHR 0x22], '','', [CHR 0x22], ''content'', [CHR 0x22], '':'',
        [CHR 0x22], ''hi'', [CHR 0x22], ''}'']"
  let ?msg = "[(''type'', JString ''message''), (''content'', JString ''hi'')]"
  let ?w = "\<lparr>w_writer = NewMessageWriter, w_manager = NewManager,
      w_db = \<lparr>users_tbl = [1], rooms_tbl = [7], room_members = [(7, 1)], messages = [],
              message_reads = [], messages_id_seq = 0, pool_up = True\<rparr>,
      w_log = []\<rparr>"
  have h1: "length ?bytes \<le> maxMessageSize"
    by (simp add: maxMessageSize_def)
  have h2: "as_string (map_of ?msg ''type'') = Some ''message''" by simp
  have h3: "as_string (map_of ?msg ''content'') = Some ''hi''" by simp
  have ok: "readPump_iteration True 5 7 1 (Wire_message ?bytes) (Inr ?msg) ?w \<noteq> Crashes"
    using readPump_message_frame [OF h1 h2 h3, of 7 1 5 True ?w] by blast
  have run: "readPump_iteration True 5 7 1 (Wire_message ?bytes) (Inr ?msg) ?w
    = Continue (?w\<lparr>w_writer := NewMessageWriter\<lparr>messageQueue :=
         \<lparr>buf = [\<lparr>ID = 0, RoomID = 7, UserID = 1, Content = ''hi'', MessageType = [],
                   FileURL = [], ParentID = None, EditedAt = None, DeletedAt = None,
                   CreatedAt = 5\<rparr>],
          cap = 1000, closed = False\<rparr>\<rparr>\<rparr>)"
    by (simp add: readPump_iteration_def handleChatMessage_def QueueMessage_def
        maxMessageSize_def chat_Message_def NewMessageWriter_def make_chan_def)
  from h1 h2 h3 run ok show ?thesis by simp
qed

section \<open>Registry: removal of rooms\<close>

lemmas run_defs = NewManager_def NewClient_def make_chan_def GetOrCreateRoom_def
  handleRoom_register_def handleRoom_unregister_def BroadcastUserEvent_def chan_send_def
  schedule_probe_if_empty_def probe_fires_def manager_loop_unregisterRoom_def removeRoom_def
  Second_def Minute_def Millisecond_def Let_def handleRoom_broadcast_def handleRoom_tick_def
  HandleTypingEvent_def expire_typing_def select_send_default_def

lemma evict_if_cold_absent:
  "map_of (rooms m) rid = None \<Longrightarrow> map_of (rooms (evict_if_cold now thr m e)) rid = None"
  by (cases e) (auto simp: evict_if_cold_def delete_conv' split: option.splits)

lemma evict_if_cold_present:
  "map_of (rooms m) rid = Some r \<Longrightarrow>
     map_of (rooms (evict_if_cold now thr m e)) rid = Some r
     \<or> (map_of (rooms (evict_if_cold now thr m e)) rid = None \<and> clients r = [])"
  by (cases e) (auto simp: evict_if_cold_def delete_conv' split: option.splits)

lemma sweep_absent:
  "map_of (rooms m) rid = None \<Longrightarrow>
     map_of (rooms (foldl (evict_if_cold now thr) m es)) rid = None"
  by (induction es arbitrary: m) (simp_all add: evict_if_cold_absent)

lemma sweep_present:
  "map_of (rooms m) rid = Some r \<Longrightarrow>
     map_of (rooms (foldl (evict_if_cold now thr) m es)) rid = Some r
     \<or> (map_of (rooms (foldl (evict_if_cold now thr) m es)) rid = None \<and> clients r = [])"
proof (induction es arbitrary: m)
  case Nil
  then show ?case by simp
next
  case (Cons e es)
  from evict_if_cold_present [OF Cons.prems, of now thr e] show ?case
  proof
    assume "map_of (rooms (evict_if_cold now thr m e)) rid = Some r"
    from Cons.IH [OF this] show ?thesis by simp
  next
    assume a: "map_of (rooms (evict_if_cold now thr m e)) rid = None \<and> clients r = []"
    then have "map_of (rooms (foldl (evict_if_cold now thr) (evict_if_cold now thr m e) es)) rid = None"
      by (simp add: sweep_absent)
    with a show ?thesis by simp
  qed
qed

lemma removeRoom_unconditional:
  "map_of (rooms m) rid = Some r \<Longrightarrow> \<not> closed (broadcast r) \<Longrightarrow>
     removeRoom rid m = Ok (m\<lparr>rooms := AList.delete rid (rooms m)\<rparr>)
     \<and> map_of (AList.delete rid (rooms m)) rid = None"
  by (simp add: removeRoom_def delete_conv')

text \<open>The sweeper checks the client set: a room it evicts is empty.\<close>

lemma sweeper_evicts_only_empty_rooms:
  "map_of (rooms m) rid = Some r \<Longrightarrow>
     map_of (rooms (evictColdRooms_tick now thr m)) rid = None \<Longrightarrow> clients r = []"
  using sweep_present [of m rid r now thr "lastActivity m"]
  by (auto simp: evictColdRooms_tick_def)

text \<open>
  C2 (the code at a failing input). Room 7 is created, client 1 registers and then
  unregisters, which leaves the room empty and starts the one-minute probe; client 2
  registers one second later. When the probe fires the room holds client 2, and the
  manager loop's \<open>removeRoom\<close> deletes it from the registry all the same: unlike
  the sweeper, it does not look at the client set.
\<close>

theorem removeRoom_removes_nonempty_room:
  "room_clients 7 (run [(0, Ev_GetOrCreateRoom 7), (0, Ev_register 7 (NewClient 1 11)),
       (1 * Second, Ev_unregister 7 1), (2 * Second, Ev_register 7 (NewClient 2 12)),
       (61 * Second, Ev_probe_fires 7)] NewManager) = Ok (Some [2])
   \<and> room_clients 7 (run [(0, Ev_GetOrCreateRoom 7), (0, Ev_register 7 (NewClient 1 11)),
       (1 * Second, Ev_unregister 7 1), (2 * Second, Ev_register 7 (NewClient 2 12)),
       (61 * Second, Ev_probe_fires 7), (61 * Second, Ev_manager_unregisterRoom)] NewManager)
     = Ok None"
  by (simp add: run_defs)

section \<open>Broadcast to sessions with a full queue\<close>

text \<open>
  C3, as stated, fails: a session whose outbound queue is full (256 of 256) has three
  consecutive broadcast frames dropped and is still attached, its queue open and
  unchanged; nothing counts the drops.
\<close>

theorem three_drops_no_disconnect_counterexample:
  "room_sessions 7 (run [(1, Ev_broadcast 7), (2, Ev_broadcast 7), (3, Ev_broadcast 7)]
     \<lparr>rooms = [(7, \<lparr>room_ID = 7,
                    clients = [\<lparr>cid = 1, userID = 11,
                                send = \<lparr>buf = replicate 256 [], cap = 256, closed = False\<rparr>\<rparr>],
                    broadcast = \<lparr>buf = [ [(''n'', JNumber 1)], [(''n'', JNumber 2)],
                                        [(''n'', JNumber 3)]],
                                 cap = 256, closed = False\<rparr>,
                    typingTrackers = []\<rparr>)],
      lastActivity = [(7, 0)], unregisterRoom = make_chan 100, probes = []\<rparr>)
   = Ok (Some [(1, False, 256)])"
  by (simp add: run_defs)

lemma deliver_open:
  "\<forall>c \<in> set cs. \<not> closed (send c) \<Longrightarrow>
     deliver message cs
       = Ok (map (\<lambda>c. if length (buf (send c)) < cap (send c)
                       then c\<lparr>send := (send c)\<lparr>buf := buf (send c) @ [message]\<rparr>\<rparr> else c) cs)"
  by (induction cs) (simp_all add: select_send_default_def chan_send_def)

text \<open>
  C3, amended. A broadcast never blocks on a session and never detaches or closes one:
  after any number of broadcast frames every session is still attached with its queue
  open; a session whose queue is full keeps its queue as it was (the frames are dropped
  for it, however many in a row), and a session with room for the frames receives them
  all, in order.
\<close>

theorem broadcast_drops_for_full_session_only:
  assumes "\<forall>c \<in> set cs. \<not> closed (send c)"
  shows "\<exists>cs'. deliver_all ms cs = Ok cs'
      \<and> map cid cs' = map cid cs
      \<and> (\<forall>c' \<in> set cs'. \<not> closed (send c'))
      \<and> (\<forall>i < length cs. cap (send (cs ! i)) \<le> length (buf (send (cs ! i))) \<longrightarrow> cs' ! i = cs ! i)
      \<and> (\<forall>i < length cs. length (buf (send (cs ! i))) + length ms \<le> cap (send (cs ! i))
            \<longrightarrow> cap (send (cs' ! i)) = cap (send (cs ! i))
               \<and> buf (send (cs' ! i)) = buf (send (cs ! i)) @ ms)"
  using assms
proof (induction ms arbitrary: cs)
  case Nil
  then show ?case by simp
next
  case (Cons m ms)
  let ?g = "\<lambda>c. if length (buf (send c)) < cap (send c)
                 then c\<lparr>send := (send c)\<lparr>buf := buf (send c) @ [m]\<rparr>\<rparr> else c"
  let ?cs1 = "map ?g cs"
  have d: "deliver m cs = Ok ?cs1"
    using Cons.prems by (rule deliver_open)
  have open1: "\<forall>c \<in> set ?cs1. \<not> closed (send c)"
    using Cons.prems by auto
  from Cons.IH [OF open1] obtain cs' where
    r: "deliver_all ms ?cs1 = Ok cs'"
    and ids: "map cid cs' = map cid ?cs1"
    and op: "\<forall>c' \<in> set cs'. \<not> closed (send c')"
    and full: "\<forall>i < length ?cs1. cap (send (?cs1 ! i)) \<le> length (buf (send (?cs1 ! i)))
                 \<longrightarrow> cs' ! i = ?cs1 ! i"
    and room: "\<forall>i < length ?cs1. length (buf (send (?cs1 ! i))) + length ms \<le> cap (send (?cs1 ! i))
            \<longrightarrow> cap (send (cs' ! i)) = cap (send (?cs1 ! i))
               \<and> buf (send (cs' ! i)) = buf (send (?cs1 ! i)) @ ms"
    by blast
  have 1: "deliver_all (m # ms) cs = Ok cs'"
    using d r by simp
  have 2: "map cid cs' = map cid cs"
    using ids by (simp add: comp_def if_distrib cong: if_cong)
  have 3: "\<forall>i < length cs. cap (send (cs ! i)) \<le> length (buf (send (cs ! i))) \<longrightarrow> cs' ! i = cs ! i"
  proof (intro allI impI)
    fix i assume i: "i < length cs" and f: "cap (send (cs ! i)) \<le> length (buf (send (cs ! i)))"
    then have "?cs1 ! i = cs ! i" by simp
    with full i f show "cs' ! i = cs ! i" by simp
  qed
  have 4: "\<forall>i < length cs. length (buf (send (cs ! i))) + length (m # ms) \<le> cap (send (cs ! i))
            \<longrightarrow> cap (send (cs' ! i)) = cap (send (cs ! i))
               \<and> buf (send (cs' ! i)) = buf (send (cs ! i)) @ (m # ms)"
  proof (intro allI impI)
    fix i assume i: "i < length cs"
      and f: "length (buf (send (cs ! i))) + length (m # ms) \<le> cap (send (cs ! i))"
    then have e: "?cs1 ! i = (cs ! i)\<lparr>send := (send (cs ! i))\<lparr>buf := buf (send (cs ! i)) @ [m]\<rparr>\<rparr>"
      by simp
    with f have "length (buf (send (?cs1 ! i))) + length ms \<le> cap (send (?cs1 ! i))" by simp
    with room i have "cap (send (cs' ! i)) = cap (send (?cs1 ! i))
               \<and> buf (send (cs' ! i)) = buf (send (?cs1 ! i)) @ ms" by simp
    with e show "cap (send (cs' ! i)) = cap (send (cs ! i))
               \<and> buf (send (cs' ! i)) = buf (send (cs ! i)) @ (m # ms)" by simp
  qed
  from 1 2 op 3 4 show ?case by blast
qed

theorem broadcast_drops_for_full_session_only_witness:
  "\<not> closed (send \<lparr>cid = 1, userID = 11,
                       send = \<lparr>buf = replicate 256 [], cap = 256, closed = False\<rparr>\<rparr>)
   \<and> \<not> closed (send (NewClient 2 12))
   \<and> deliver_all [ [(''n'', JNumber 1)], [(''n'', JNumber 2)], [(''n'', JNumber 3)]]
        [\<lparr>cid = 1, userID = 11, send = \<lparr>buf = replicate 256 [], cap = 256, closed = False\<rparr>\<rparr>,
         NewClient 2 12]
      = Ok [\<lparr>cid = 1, userID = 11, send = \<lparr>buf = replicate 256 [], cap = 256, closed = False\<rparr>\<rparr>,
            \<lparr>cid = 2, userID = 12,
             send = \<lparr>buf = [ [(''n'', JNumber 1)], [(''n'', JNumber 2)], [(''n'', JNumber 3)]],
                     cap = 256, closed = False\<rparr>\<rparr>]"
proof -
  let ?slow = "\<lparr>cid = 1, userID = 11, send = \<lparr>buf = replicate 256 [], cap = 256, closed = False\<rparr>\<rparr>"
  let ?ms = "[ [(''n'', JNumber 1)], [(''n'', JNumber 2)], [(''n'', JNumber 3)]]"
  have h: "\<forall>c \<in> set [?slow, NewClient 2 12]. \<not> closed (send c)"
    by (simp add: NewClient_def make_chan_def)
  from broadcast_drops_for_full_session_only [OF h, of ?ms] obtain cs' where
    r: "deliver_all ?ms [?slow, NewClient 2 12] = Ok cs'"
    and ids: "map cid cs' = map cid [?slow, NewClient 2 12]"
    and full: "\<forall>i < length [?slow, NewClient 2 12].
        cap (send ([?slow, NewClient 2 12] ! i)) \<le> length (buf (send ([?slow, NewClient 2 12] ! i)))
        \<longrightarrow> cs' ! i = [?slow, NewClient 2 12] ! i"
    by blast
  from full have "cs' ! 0 = ?slow" by simp
  moreover have "deliver_all ?ms [?slow, NewClient 2 12]
      = Ok [?slow, \<lparr>cid = 2, userID = 12, send = \<lparr>buf = ?ms, cap = 256, closed = False\<rparr>\<rparr>]"
    by (simp add: select_send_default_def chan_send_def NewClient_def make_chan_def)
  ultimately show ?thesis using h by simp
qed

section \<open>Expiry of typing entries\<close>

lemma expire_typing_distinct:
  "distinct (map fst tr) \<Longrightarrow> distinct (map fst (expire_typing now tr))"
  by (simp add: expire_typing_def distinct_map_filter)

lemma map_of_filter_distinct:
  "distinct (map fst al) \<Longrightarrow>
     map_of (filter P al) k
       = (case map_of al k of None \<Rightarrow> None | Some v \<Rightarrow> if P (k, v) then Some v else None)"
proof (induction al)
  case Nil
  then show ?case by simp
next
  case (Cons a al)
  obtain k' v' where a: "a = (k', v')" by (cases a)
  show ?case
  proof (cases "k' = k")
    case True
    with Cons.prems a have "k \<notin> fst ` set al" by simp
    then have "map_of al k = None" by (simp add: map_of_eq_None_iff)
    moreover from this have "map_of (filter P al) k = None"
      by (auto simp: map_of_eq_None_iff)
    ultimately show ?thesis using a True by simp
  next
    case False
    with Cons a show ?thesis by simp
  qed
qed

lemma expire_typing_lookup:
  "distinct (map fst tr) \<Longrightarrow> map_of tr u = Some t0 \<Longrightarrow>
     map_of (expire_typing now tr) u = (if 3 * Second < now - t0 then None else Some t0)"
  by (simp add: expire_typing_def map_of_filter_distinct)

lemma expire_typing_absent:
  "map_of tr u = None \<Longrightarrow> map_of (expire_typing now tr) u = None"
  by (auto simp: expire_typing_def map_of_eq_None_iff)

lemma run_ticks_absent:
  "map_of tr u = None \<Longrightarrow> map_of (run_ticks nows tr) u = None"
  by (induction nows arbitrary: tr) (simp_all add: expire_typing_absent)

lemma run_ticks_lookup:
  "distinct (map fst tr) \<Longrightarrow> map_of tr u = Some t0 \<Longrightarrow>
     map_of (run_ticks nows tr) u
       = (if list_ex (\<lambda>now. 3 * Second < now - t0) nows then None else Some t0)"
proof (induction nows arbitrary: tr)
  case Nil
  then show ?case by simp
next
  case (Cons now later)
  show ?case
  proof (cases "3 * Second < now - t0")
    case True
    with Cons.prems have "map_of (expire_typing now tr) u = None"
      by (simp add: expire_typing_lookup)
    then have "map_of (run_ticks later (expire_typing now tr)) u = None"
      by (rule run_ticks_absent)
    with True show ?thesis by simp
  next
    case False
    with Cons.prems have "map_of (expire_typing now tr) u = Some t0"
      by (simp add: expire_typing_lookup)
    from Cons.IH [OF expire_typing_distinct [OF Cons.prems(1)] this] False
    show ?thesis by simp
  qed
qed

text \<open>
  C6, as stated, fails: in a room whose loop started at time 0 (ticks at 5 s, 10 s, ...)
  a user sends \<open>typing_start\<close> at 2.5 s. The tick at 5 s, the only one within 3 s of
  the event, finds the entry 2.5 s old and keeps it; it is still in the tracker when
  the 3 s are over, and leaves it only at the tick at 10 s, 7.5 s after the event.
\<close>

theorem typing_entry_after_three_seconds_counterexample:
  "room_typing 7 (run [(0, Ev_GetOrCreateRoom 7), (2500 * Millisecond, Ev_typing 7 1 True),
       (5 * Second, Ev_room_tick 7)] NewManager)
     = Ok (Some [(1, 2500 * Millisecond)])
   \<and> room_typing 7 (run [(0, Ev_GetOrCreateRoom 7), (2500 * Millisecond, Ev_typing 7 1 True),
       (5 * Second, Ev_room_tick 7), (10 * Second, Ev_room_tick 7)] NewManager)
     = Ok (Some [])"
  by (simp add: run_defs)

text \<open>
  C6, amended. A user sends \<open>typing_start\<close> at \<open>t0\<close> and nothing else. Whatever
  the times the tick handling reads, the user's entry is removed by the periodic expiry
  exactly when a tick is handled more than 3 s after \<open>t0\<close>: it stays in the tracker
  through every tick handled up to \<open>t0 + 3 s\<close>, and it is gone from the first tick
  handled later than that. No \<open>typing_stop\<close> is needed.
\<close>

theorem typing_entry_expiry:
  assumes "distinct (map fst tr0)"
  shows "map_of (run_ticks nows (AList.update u t0 tr0)) u
            = (if list_ex (\<lambda>now. 3 * Second < now - t0) nows then None else Some t0)
     \<and> (map_of (run_ticks nows (AList.update u t0 tr0)) u = None
          \<longleftrightarrow> (\<exists>now \<in> set nows. t0 + 3 * Second < now))
     \<and> ((\<forall>now \<in> set nows. now \<le> t0 + 3 * Second)
          \<longrightarrow> map_of (run_ticks nows (AList.update u t0 tr0)) u = Some t0)"
proof -
  let ?tr = "AList.update u t0 tr0"
  have d: "distinct (map fst ?tr)"
    using assms by (rule distinct_update)
  have l: "map_of ?tr u = Some t0"
    by (simp add: update_conv')
  have look: "map_of (run_ticks nows ?tr) u
            = (if list_ex (\<lambda>now. 3 * Second < now - t0) nows then None else Some t0)"
    using d l by (rule run_ticks_lookup)
  have later: "3 * Second < now - t0 \<longleftrightarrow> t0 + 3 * Second < now" for now
    by linarith
  have ex: "list_ex (\<lambda>now. 3 * Second < now - t0) nows \<longleftrightarrow> (\<exists>now \<in> set nows. t0 + 3 * Second < now)"
    by (simp add: list_ex_iff later)
  have c1: "map_of (run_ticks nows ?tr) u = None \<longleftrightarrow> (\<exists>now \<in> set nows. t0 + 3 * Second < now)"
    using look ex by simp
  have c2: "map_of (run_ticks nows ?tr) u = Some t0" if "\<forall>now \<in> set nows. now \<le> t0 + 3 * Second"
  proof -
    from that have "\<not> (\<exists>now \<in> set nows. t0 + 3 * Second < now)" by fastforce
    with look ex show ?thesis by simp
  qed
  from look c1 c2 show ?thesis by blast
qed

theorem typing_entry_expiry_witness:
  "distinct (map fst ([] :: (uuid \<times> time) list))
   \<and> map_of (run_ticks [5 * Second] (AList.update (1::uuid) (2500 * Millisecond) [])) 1
       = Some (2500 * Millisecond)
   \<and> map_of (run_ticks [5 * Second, 10 * Second]
        (AList.update (1::uuid) (2500 * Millisecond) [])) 1 = None"
proof -
  have h: "distinct (map fst ([] :: (uuid \<times> time) list))" by simp
  have a: "map_of (run_ticks [5 * Second] (AList.update (1::uuid) (2500 * Millisecond) [])) 1
       = Some (2500 * Millisecond)"
    using typing_entry_expiry [OF h, of "[5 * Second]" 1 "2500 * Millisecond"]
    by (simp add: Second_def Millisecond_def)
  have b: "map_of (run_ticks [5 * Second, 10 * Second]
        (AList.update (1::uuid) (2500 * Millisecond) [])) 1 = None"
    using typing_entry_expiry [OF h, of "[5 * Second, 10 * Second]" 1 "2500 * Millisecond"]
    by (simp add: Second_def Millisecond_def)
  from h a b show ?thesis by blast
qed

end
